theory Spec2Isabelle
  imports Complex_Main "HOL-Library.Sublist"
begin

section \<open>Pump diagnostic expert system: shallow embedding of app.py\<close>

text \<open>
  Conventions of the embedding.
  \<^item> A Python \<open>float\<close> is a \<^typ>\<open>real\<close>; NaN and the infinities are not values.
    Arithmetic is exact, except in the electrical parameter calculator, where every
    operation rounds its result to a double. A Python \<open>int\<close> is an \<^typ>\<open>int\<close>.
  \<^item> A Python \<open>dict\<close> that is iterated is an association list in insertion order
    with pairwise distinct keys; \<open>d.get(k, default)\<close> is a lookup with a default.
  \<^item> A \<open>dict\<close> that is used as a struct with a fixed set of keys is a record.
  \<^item> A Python exception is the left summand of a result \<open>py_error + 'a\<close>.
\<close>

subsection \<open>Python primitives\<close>

datatype py_error = ZeroDivisionError | ValueError

text \<open>True division \<open>a / b\<close> on floats raises on a zero divisor.\<close>

definition py_truediv :: "real \<Rightarrow> real \<Rightarrow> py_error + real" where
  "py_truediv a b = (if b = 0 then Inl ZeroDivisionError else Inr (a / b))"

text \<open>\<open>int(x)\<close> on a float truncates toward zero.\<close>

definition py_int :: "real \<Rightarrow> int" where
  "py_int x = (if 0 \<le> x then \<lfloor>x\<rfloor> else \<lceil>x\<rceil>)"

text \<open>\<open>max(xs)\<close> on a list written out with at least one element: the first
  maximal element is kept, a later one replaces it only when strictly greater.\<close>

definition py_max_list :: "real \<Rightarrow> real list \<Rightarrow> real" where
  "py_max_list x xs = foldl (\<lambda>best y. if y > best then y else best) x xs"

text \<open>\<open>d.get(k, default)\<close> on an association list.\<close>

definition dict_get :: "('k \<times> 'v) list \<Rightarrow> 'k \<Rightarrow> 'v \<Rightarrow> 'v" where
  "dict_get d k dflt = (case map_of d k of None \<Rightarrow> dflt | Some v \<Rightarrow> v)"

subsection \<open>Double-precision arithmetic\<close>

text \<open>
  The electrical parameter calculator is modelled in Python's double arithmetic: each
  operation returns the exact result rounded to the nearest number with a 53-bit
  significand, ties to the even significand. The exponent is not bounded, so that
  overflow to infinity and the subnormal numbers are not modelled: the rounding is that
  of a double as long as the results stay in the normal range of magnitudes, between
  2 to the power -1022 and 2 to the power 1024, which the range condition
  \<open>phase_value\<close> below ensures for the unbalance computations of the calculator.
\<close>

text \<open>The integer part of the binary logarithm of a positive natural number.\<close>

fun ilog2 :: "nat \<Rightarrow> nat" where
  "ilog2 n = (if n < 2 then 0 else Suc (ilog2 (n div 2)))"

declare ilog2.simps [simp del]

text \<open>The exponent \<open>e\<close> of a number \<open>x\<close> other than 0, for which
  \<open>2 powi e \<le> \<bar>x\<bar>\<close> and \<open>\<bar>x\<bar> < 2 powi (e + 1)\<close>.\<close>

definition fexp :: "real \<Rightarrow> int" where
  "fexp x = (if \<bar>x\<bar> \<ge> 1 then int (ilog2 (nat \<lfloor>\<bar>x\<bar>\<rfloor>))
             else - int (ilog2 (nat \<lceil>1 / \<bar>x\<bar>\<rceil> - 1)) - 1)"

text \<open>Rounding to the nearest integer, a tie to the even one.\<close>

definition rne :: "real \<Rightarrow> int" where
  "rne x = (let f = \<lfloor>x\<rfloor>; d = x - of_int f
            in if d < 1 / 2 then f else if d > 1 / 2 then f + 1
               else if even f then f else f + 1)"

text \<open>Rounding to a double: to a multiple of \<open>2 powi (e - 52)\<close> for the exponent
  \<open>e\<close> of the number.\<close>

definition fl :: "real \<Rightarrow> real" where
  "fl x = (if x = 0 then 0
           else (let e = fexp x - 52 in of_int (rne (x / 2 powi e)) * 2 powi e))"

text \<open>The float operations \<open>a + b\<close>, \<open>a - b\<close>, \<open>a * b\<close> and \<open>a / b\<close>.\<close>

definition float_add :: "real \<Rightarrow> real \<Rightarrow> real" where
  "float_add a b = fl (a + b)"

definition float_sub :: "real \<Rightarrow> real \<Rightarrow> real" where
  "float_sub a b = fl (a - b)"

definition float_mul :: "real \<Rightarrow> real \<Rightarrow> real" where
  "float_mul a b = fl (a * b)"

definition float_truediv :: "real \<Rightarrow> real \<Rightarrow> py_error + real" where
  "float_truediv a b = (if b = 0 then Inl ZeroDivisionError else Inr (fl (a / b)))"

subsection \<open>Global configuration\<close>

datatype severity = Low | Medium | High

text \<open>The order Low < Medium < High of the severities, as a rank.\<close>

definition sev_rank :: "severity \<Rightarrow> nat" where
  "sev_rank s = (case s of Low \<Rightarrow> 0 | Medium \<Rightarrow> 1 | High \<Rightarrow> 2)"

definition limit_warning :: real where "limit_warning = 4.5"
definition limit_danger :: real where "limit_danger = 7.1"

definition base1 :: real where "base1 = 0.3"
definition base2 :: real where "base2 = 0.2"
definition base3 :: real where "base3 = 0.15"

definition normal_max :: real where "normal_max = 70"
definition elevated_max :: real where "elevated_max = 80"
definition warning_max :: real where "warning_max = 90"
definition critical_min :: real where "critical_min = 90"
definition delta_threshold :: real where "delta_threshold = 15"

definition voltage_unbalance_warning :: real where "voltage_unbalance_warning = 1.0"
definition voltage_unbalance_critical :: real where "voltage_unbalance_critical = 2.0"
definition current_unbalance_warning :: real where "current_unbalance_warning = 5.0"
definition current_unbalance_critical :: real where "current_unbalance_critical = 8.0"
definition voltage_tolerance_low :: real where "voltage_tolerance_low = 90"
definition voltage_tolerance_high :: real where "voltage_tolerance_high = 110"
definition current_load_critical :: real where "current_load_critical = 100"

subsection \<open>Parameter calculators\<close>

record hydraulic_calc =
  delta_p_bar :: real
  head_m :: real
  hydraulic_power_kw :: real
  efficiency_percent :: real

text \<open>
  \<open>calculate_hydraulic_parameters\<close>: every division of the source is written with
  \<^const>\<open>py_truediv\<close>, under the guard the source puts in front of it, so that a
  division the guard lets through with a zero divisor would show as an error.
\<close>

definition calculate_hydraulic_parameters ::
  "real \<Rightarrow> real \<Rightarrow> real \<Rightarrow> real \<Rightarrow> real \<Rightarrow> real \<Rightarrow> py_error + hydraulic_calc" where
  "calculate_hydraulic_parameters suction_pressure discharge_pressure flow_rate
       motor_power sg fluid_temp_c =
    (let delta_p = discharge_pressure - suction_pressure in
     case (if sg > 0 then py_truediv (delta_p * 10.2) sg else Inr 0) of
       Inl e \<Rightarrow> Inl e
     | Inr head \<Rightarrow>
     (case (if flow_rate > 0 \<and> head > 0
            then py_truediv (flow_rate * head * sg * 9.81) 3600 else Inr 0) of
       Inl e \<Rightarrow> Inl e
     | Inr hydraulic_power \<Rightarrow>
     (case (if motor_power > 0
            then (case py_truediv hydraulic_power motor_power of
                    Inl e \<Rightarrow> Inl e | Inr q \<Rightarrow> Inr (q * 100))
            else Inr 0) of
       Inl e \<Rightarrow> Inl e
     | Inr efficiency \<Rightarrow>
         Inr \<lparr>delta_p_bar = delta_p, head_m = head,
              hydraulic_power_kw = hydraulic_power,
              efficiency_percent = efficiency\<rparr>)))"

record electrical_calc =
  v_avg :: real
  i_avg :: real
  voltage_unbalance_percent :: real
  current_unbalance_percent :: real
  load_estimate_percent :: real
  voltage_within_tolerance :: bool

text \<open>
  \<open>calculate_electrical_parameters\<close>, in double arithmetic. The divisions by the
  averages and by the full-load amps are guarded; the division by the rated voltage is
  not.
\<close>

definition calculate_electrical_parameters ::
  "real \<Rightarrow> real \<Rightarrow> real \<Rightarrow> real \<Rightarrow> real \<Rightarrow> real \<Rightarrow> real \<Rightarrow> real
     \<Rightarrow> py_error + electrical_calc" where
  "calculate_electrical_parameters v_l1l2 v_l2l3 v_l3l1 i_l1 i_l2 i_l3 rated_voltage fla =
    (case float_truediv (float_add (float_add v_l1l2 v_l2l3) v_l3l1) 3 of
       Inl e \<Rightarrow> Inl e
     | Inr va \<Rightarrow>
    (case float_truediv (float_add (float_add i_l1 i_l2) i_l3) 3 of
       Inl e \<Rightarrow> Inl e
     | Inr ia \<Rightarrow>
    (let v_deviations = map (\<lambda>v. \<bar>float_sub v va\<bar>) [v_l1l2, v_l2l3, v_l3l1] in
     case (if va > 0
           then (case float_truediv (py_max_list (hd v_deviations) (tl v_deviations)) va of
                   Inl e \<Rightarrow> Inl e | Inr q \<Rightarrow> Inr (float_mul q 100))
           else Inr 0) of
       Inl e \<Rightarrow> Inl e
     | Inr voltage_unbalance \<Rightarrow>
     (let i_deviations = map (\<lambda>i. \<bar>float_sub i ia\<bar>) [i_l1, i_l2, i_l3] in
      case (if ia > 0
            then (case float_truediv (py_max_list (hd i_deviations) (tl i_deviations)) ia of
                    Inl e \<Rightarrow> Inl e | Inr q \<Rightarrow> Inr (float_mul q 100))
            else Inr 0) of
        Inl e \<Rightarrow> Inl e
      | Inr current_unbalance \<Rightarrow>
      (case (if fla > 0
             then (case float_truediv ia fla of
                     Inl e \<Rightarrow> Inl e | Inr q \<Rightarrow> Inr (float_mul q 100))
             else Inr 0) of
        Inl e \<Rightarrow> Inl e
      | Inr load_estimate \<Rightarrow>
      (case float_truediv va rated_voltage of
        Inl e \<Rightarrow> Inl e
      | Inr q \<Rightarrow>
          Inr \<lparr>v_avg = va, i_avg = ia,
               voltage_unbalance_percent = voltage_unbalance,
               current_unbalance_percent = current_unbalance,
               load_estimate_percent = load_estimate,
               voltage_within_tolerance =
                 (voltage_tolerance_low \<le> float_mul q 100
                  \<and> float_mul q 100 \<le> voltage_tolerance_high)\<rparr>))))))"

subsection \<open>Diagnosis results\<close>

text \<open>
  The notes of the temperature adjuster are f-strings that print the location and the
  temperature; a note is kept as the constructor that names its text, with the values
  the f-string prints.
\<close>

datatype temp_note =
    CriticalConfirmation string real
  | CriticalReview string real
  | WarningConfirmation string real
  | WarningMonitor string real
  | ElevatedIndication string real
  | ElevatedTrend string real
  | PumpDeltaT real
  | MotorDeltaT real
  | MotorHotterThanPump

text \<open>
  The \<open>details\<close> entry of a result: absent (mechanical), the hydraulic diagnoser's
  \<open>{"deviations": ..., "npsh_margin_m": ...}\<close>, or the electrical diagnoser's
  \<open>{"voltage_unbalance": ..., "current_unbalance": ..., "load_estimate": ...}\<close>.
\<close>

datatype details =
    NoDetails
  | HydDetails "(string \<times> real) list" real
  | ElecDetails real real real

record diagnosis_result =
  diagnosis :: string
  confidence :: int
  severity :: severity
  fault_type :: string
  domain :: string
  details :: details
  champion_point :: "string option"
  temperature_notes :: "temp_note list"

text \<open>\<open>r.get("details", {}).get("deviations", {}).get("head_dev", 0)\<close>\<close>

definition details_head_dev :: "details \<Rightarrow> real" where
  "details_head_dev d =
     (case d of HydDetails deviations m \<Rightarrow> dict_get deviations ''head_dev'' 0 | _ \<Rightarrow> 0)"

text \<open>\<open>r.get("details", {}).get("current_unbalance", 0)\<close>\<close>

definition details_current_unbalance :: "details \<Rightarrow> real" where
  "details_current_unbalance d = (case d of ElecDetails vu cu le \<Rightarrow> cu | _ \<Rightarrow> 0)"

subsection \<open>Temperature analysis\<close>

text \<open>
  A bearing-temperature map holds, per location, a number or Python's \<open>None\<close>.
  \<open>get_temperature_status\<close> returns the status text and the severity level (the
  colour glyph of the source's triple is left out).
\<close>

type_synonym temp_dict = "(string \<times> real option) list"

definition get_temperature_status :: "real option \<Rightarrow> string \<times> int" where
  "get_temperature_status temp_celsius =
     (case temp_celsius of
        None \<Rightarrow> (''N/A'', 0)
      | Some t \<Rightarrow>
          if t = 0 then (''N/A'', 0)
          else if t < normal_max then (''Normal'', 0)
          else if t < elevated_max then (''Elevated'', 0)
          else if t < warning_max then (''Warning'', 1)
          else (''Critical'', 2))"

text \<open>The body of the loop over \<open>temp_dict.items()\<close>.\<close>

definition temp_step ::
  "bool \<Rightarrow> int \<times> temp_note list \<Rightarrow> string \<times> real option \<Rightarrow> int \<times> temp_note list" where
  "temp_step diagnosis_consistent acc item =
     (case acc of (adjustment, notes) \<Rightarrow>
      case item of (location, temp) \<Rightarrow>
      (case temp of
         None \<Rightarrow> (adjustment, notes)
       | Some t \<Rightarrow>
           if t = 0 then (adjustment, notes)
           else
             (let status = fst (get_temperature_status temp) in
              if status = ''Critical'' then
                (if diagnosis_consistent
                 then (adjustment + 20, notes @ [CriticalConfirmation location t])
                 else (adjustment - 10, notes @ [CriticalReview location t]))
              else if status = ''Warning'' then
                (if diagnosis_consistent
                 then (adjustment + 15, notes @ [WarningConfirmation location t])
                 else (adjustment - 5, notes @ [WarningMonitor location t]))
              else if status = ''Elevated'' then
                (if diagnosis_consistent
                 then (adjustment + 10, notes @ [ElevatedIndication location t])
                 else (adjustment, notes @ [ElevatedTrend location t]))
              else (adjustment, notes))))"

text \<open>\<open>temp_dict.get(k)\<close> used as a condition: false for an absent key, \<open>None\<close>
  and 0. \<open>temp_dict[k]\<close> is read only under that condition.\<close>

definition temp_truthy :: "temp_dict \<Rightarrow> string \<Rightarrow> bool" where
  "temp_truthy temp_dict k =
     (case map_of temp_dict k of Some (Some t) \<Rightarrow> t \<noteq> 0 | _ \<Rightarrow> False)"

definition temp_at :: "temp_dict \<Rightarrow> string \<Rightarrow> real" where
  "temp_at temp_dict k = (case map_of temp_dict k of Some (Some t) \<Rightarrow> t | _ \<Rightarrow> 0)"

definition calculate_temperature_confidence_adjustment ::
  "temp_dict \<Rightarrow> bool \<Rightarrow> int \<times> temp_note list" where
  "calculate_temperature_confidence_adjustment temp_dict diagnosis_consistent =
     (let (adjustment, notes) = foldl (temp_step diagnosis_consistent) (0, []) temp_dict;
          (adjustment, notes) =
            (if temp_truthy temp_dict ''Pump_DE'' \<and> temp_truthy temp_dict ''Pump_NDE''
             then (let delta_pump = \<bar>temp_at temp_dict ''Pump_DE'' - temp_at temp_dict ''Pump_NDE''\<bar>
                   in if delta_pump > delta_threshold
                      then (adjustment + 5, notes @ [PumpDeltaT delta_pump])
                      else (adjustment, notes))
             else (adjustment, notes));
          (adjustment, notes) =
            (if temp_truthy temp_dict ''Motor_DE'' \<and> temp_truthy temp_dict ''Motor_NDE''
             then (let delta_motor = \<bar>temp_at temp_dict ''Motor_DE'' - temp_at temp_dict ''Motor_NDE''\<bar>
                   in if delta_motor > delta_threshold
                      then (adjustment + 5, notes @ [MotorDeltaT delta_motor])
                      else (adjustment, notes))
             else (adjustment, notes));
          notes =
            (if temp_truthy temp_dict ''Motor_DE'' \<and> temp_truthy temp_dict ''Pump_DE''
             then (if temp_at temp_dict ''Motor_DE'' > temp_at temp_dict ''Pump_DE'' + 10
                   then notes @ [MotorHotterThanPump] else notes)
             else notes)
      in (min 20 (max (- 10) adjustment), notes))"

subsection \<open>Mechanical diagnoser\<close>

text \<open>\<open>s.split()\<close>: the maximal runs of characters that are not whitespace.\<close>

definition is_space :: "char \<Rightarrow> bool" where
  "is_space c = (c \<in> set [CHR '' '', CHR 0x09, CHR 0x0A, CHR 0x0B, CHR 0x0C, CHR 0x0D,
                            CHR 0x1C, CHR 0x1D, CHR 0x1E, CHR 0x1F])"

fun split_acc :: "string \<Rightarrow> string \<Rightarrow> string list" where
  "split_acc w [] = (if w = [] then [] else [w])"
| "split_acc w (c # cs) =
     (if is_space c then (if w = [] then split_acc [] cs else w # split_acc [] cs)
      else split_acc (w @ [c]) cs)"

definition py_split :: "string \<Rightarrow> string list" where
  "py_split s = split_acc [] s"

text \<open>\<open>sub in s\<close> on strings.\<close>

fun py_in :: "string \<Rightarrow> string \<Rightarrow> bool" where
  "py_in sub [] = (sub = [])"
| "py_in sub (c # cs) = (prefix sub (c # cs) \<or> py_in sub cs)"

text \<open>\<open>next(generator, default)\<close>: the first element the generator yields.\<close>

fun py_next :: "'a list \<Rightarrow> 'a \<Rightarrow> 'a" where
  "py_next [] dflt = dflt"
| "py_next (x # xs) dflt = x"

text \<open>
  \<open>max(d, key=d.get)\<close> together with \<open>d[champ_point]\<close>: the keys are visited in
  insertion order, the first one is kept and replaced only by a key whose value is
  strictly greater; on an empty dict \<open>max\<close> raises \<open>ValueError\<close>. The keys of a dict
  are distinct, so \<open>d.get\<close> of the visited key is the value listed with it.
\<close>

definition py_max_key :: "('k \<times> real) list \<Rightarrow> py_error + 'k \<times> real" where
  "py_max_key d =
     (case d of
        [] \<Rightarrow> Inl ValueError
      | item # items \<Rightarrow>
          Inr (foldl (\<lambda>best it. if snd it > snd best then it else best) item items))"

text \<open>The twelve measurement points in the order in which the data entry builds the
  velocity and band dicts.\<close>

definition points :: "string list" where
  "points = [machine @ '' '' @ end_side @ '' '' @ direction.
               machine \<leftarrow> [''Pump'', ''Motor''], end_side \<leftarrow> [''DE'', ''NDE''],
               direction \<leftarrow> [''Horizontal'', ''Vertical'', ''Axial'']]"

text \<open>Step 1, the bearing evaluation: the body of the loop over
  \<open>bands_data.items()\<close> on the pair (worst_bearing_severity, bearing_diag).\<close>

definition bearing_step ::
  "severity \<times> string \<Rightarrow> string \<times> (string \<times> real) list \<Rightarrow> severity \<times> string" where
  "bearing_step acc item =
     (case acc of (worst_bearing_severity, bearing_diag) \<Rightarrow>
      case item of (point, bands) \<Rightarrow>
        (let b3 = dict_get bands ''Band3'' 0;
             b2 = dict_get bands ''Band2'' 0;
             b1 = dict_get bands ''Band1'' 0
         in if b1 > 2.5 * base1 \<and> b2 > 1.5 * base2 then (High, ''BEARING_SEVERE'')
            else if b2 > 2.0 * base2 \<and> b3 > 1.5 * base3
              then (if b2 > 3 * base2 then High else Medium, ''BEARING_DEVELOPED'')
            else if b3 > 2.0 * base3
              then (if worst_bearing_severity = Low then Medium else worst_bearing_severity,
                    ''BEARING_EARLY'')
            else (worst_bearing_severity, bearing_diag)))"

definition evaluate_bearing :: "(string \<times> (string \<times> real) list) list \<Rightarrow> severity \<times> string" where
  "evaluate_bearing bands_data = foldl bearing_step (Low, ''Normal'') bands_data"

text \<open>The amplitudes at 1x and 2x running speed taken from the FFT peaks
  (frequency, amplitude) of the champion point.\<close>

definition amp_1x :: "(real \<times> real) list \<Rightarrow> real \<Rightarrow> real" where
  "amp_1x fft_champ_data rpm_hz =
     py_next [snd p. p \<leftarrow> fft_champ_data, \<bar>fst p - rpm_hz\<bar> < 0.05 * rpm_hz] 0"

definition amp_2x :: "(real \<times> real) list \<Rightarrow> real \<Rightarrow> real" where
  "amp_2x fft_champ_data rpm_hz =
     py_next [snd p. p \<leftarrow> fft_champ_data, \<bar>fst p - 2 * rpm_hz\<bar> < 0.05 * rpm_hz] 0"

text \<open>Step 2, the low-frequency path for a champion above the warning limit: the
  direction rules, giving (low_freq_diag, low_freq_conf). \<open>low_freq_diag\<close> starts
  as \<open>None\<close> and is replaced by the text for "undiagnosed" when no rule has set it.\<close>

definition direction_rules ::
  "(string \<times> real) list \<Rightarrow> (real \<times> real) list \<Rightarrow> real \<Rightarrow> string \<Rightarrow> real \<Rightarrow> string \<times> int" where
  "direction_rules vel_data fft_champ_data rpm_hz champ_point max_vel =
     (let parts = py_split champ_point;
          (machine, end_side, direction) =
             (if length parts \<ge> 3 then (parts ! 0, parts ! 1, parts ! 2)
              else (''Pump'', ''DE'', ''Horizontal''));
          a1 = amp_1x fft_champ_data rpm_hz;
          a2 = amp_2x fft_champ_data rpm_hz;
          (low_freq_diag, low_freq_conf) =
             (if direction = ''Axial'' \<and> end_side = ''DE'' then
                (let opp_machine = (if machine = ''Motor'' then ''Pump'' else ''Motor'');
                     opp_point = opp_machine @ '' DE Axial'';
                     opp_vel = dict_get vel_data opp_point 0
                 in if a2 > 0.5 * a1 \<or> opp_vel > limit_warning
                    then (Some ''MISALIGNMENT'',
                          min 95 (75 + py_int (if limit_warning > 0
                                               then opp_vel / limit_warning * 10 else 0)))
                    else (None, 0))
              else if direction = ''Horizontal'' then
                (let opp_end = (if end_side = ''DE'' then ''NDE'' else ''DE'');
                     opp_point = machine @ '' '' @ opp_end @ '' Horizontal'';
                     opp_vel = dict_get vel_data opp_point 0;
                     total_fft = (if fft_champ_data \<noteq> [] then sum_list (map snd fft_champ_data)
                                  else 1)
                 in if a1 > 0.7 * total_fft \<or> opp_vel > limit_warning
                    then (Some ''UNBALANCE'',
                          min 90 (70 + py_int (if max_vel > 0 then a1 / max_vel * 20 else 0)))
                    else (None, 0))
              else if direction = ''Vertical'' then
                (let high_verts =
                       int (length [p. (p, v) \<leftarrow> vel_data, py_in ''Vertical'' p \<and> v > limit_warning])
                 in if high_verts \<ge> 2 \<or> (a2 > 0.1 \<and> a1 > 0.1)
                    then (Some ''LOOSENESS'', min 90 (60 + high_verts * 10))
                    else (None, 0))
              else (None, 0))
      in case low_freq_diag of
           None \<Rightarrow> (''Tidak Terdiagnosa'', 40)
         | Some d \<Rightarrow> (d, low_freq_conf))"

text \<open>
  \<open>diagnose_mechanical_system\<close>. The only operation of the source that can raise is
  \<open>max\<close> on an empty velocity dict. Where the champion is not above the warning limit
  the source leaves \<open>low_freq_diag = None\<close> and \<open>low_freq_conf = 0\<close>; the final
  decision does not read them then (the low-frequency severity is Low), and the model
  puts the empty text there.
\<close>

definition diagnose_mechanical_system ::
  "(string \<times> real) list \<Rightarrow> (string \<times> (string \<times> real) list) list \<Rightarrow> (real \<times> real) list
     \<Rightarrow> real \<Rightarrow> temp_dict \<Rightarrow> py_error + diagnosis_result" where
  "diagnose_mechanical_system vel_data bands_data fft_champ_data rpm_hz temp_data =
     (let result = \<lparr>diagnosis = ''Normal'', confidence = 99, severity = Low,
                    fault_type = ''normal'', domain = ''mechanical'', details = NoDetails,
                    champion_point = None, temperature_notes = []\<rparr>;
          (worst_bearing_severity, bearing_diag) = evaluate_bearing bands_data
      in case py_max_key vel_data of
           Inl e \<Rightarrow> Inl e
         | Inr (champ_point, max_vel) \<Rightarrow>
             (let result = result\<lparr>champion_point := Some champ_point\<rparr>;
                  low_freq_severity =
                    (if max_vel > limit_warning
                     then (if max_vel > limit_danger then High else Medium) else Low);
                  (low_freq_diag, low_freq_conf) =
                    (if max_vel > limit_warning
                     then direction_rules vel_data fft_champ_data rpm_hz champ_point max_vel
                     else ([], 0))
              in Inr (if low_freq_severity = High then
                        result\<lparr>diagnosis := low_freq_diag, confidence := low_freq_conf,
                               severity := High, fault_type := ''low_freq''\<rparr>
                      else if worst_bearing_severity = High then
                        result\<lparr>diagnosis := bearing_diag, confidence := 85,
                               severity := High, fault_type := ''high_freq''\<rparr>
                      else if low_freq_severity = Medium then
                        result\<lparr>diagnosis := low_freq_diag, confidence := low_freq_conf,
                               severity := Medium, fault_type := ''low_freq''\<rparr>
                      else if worst_bearing_severity = Medium then
                        result\<lparr>diagnosis := bearing_diag, confidence := 75,
                               severity := Medium, fault_type := ''high_freq''\<rparr>
                      else result\<lparr>champion_point := Some ''Tidak Ada (Normal)''\<rparr>)))"

subsection \<open>Hydraulic diagnoser\<close>




subsection \<open>Cross-domain integration\<close>

text \<open>Characters of the source's notes outside ASCII, as their UTF-8 bytes.\<close>

definition u_arrow :: string where "u_arrow = [CHR 0xE2, CHR 0x86, CHR 0x92]"
definition u_delta :: string where "u_delta = [CHR 0xCE, CHR 0x94]"
definition u_degree :: string where "u_degree = [CHR 0xC2, CHR 0xB0]"
definition u_warning_sign :: string where
  "u_warning_sign = [CHR 0xE2, CHR 0x9A, CHR 0xA0, CHR 0xEF, CHR 0xB8, CHR 0x8F]"

definition no_correlation_diagnosis :: string where
  "no_correlation_diagnosis = ''Tidak Ada Korelasi Antar Domain Terdeteksi''"

definition no_correlation_note :: string where
  "no_correlation_note = ''Tidak ada korelasi kuat antar domain terdeteksi''"

definition note_rule1 :: string where
  "note_rule1 = ''Voltage unbalance '' @ u_arrow @ '' torque pulsation '' @ u_arrow
                  @ '' hydraulic instability''"

definition note_rule2 :: string where
  "note_rule2 = ''Cavitation '' @ u_arrow @ '' impeller erosion '' @ u_arrow
                  @ '' unbalance '' @ u_arrow @ '' current fluctuation''"

definition note_rule3 :: string where
  "note_rule3 = ''High electrical input + low hydraulic output '' @ u_arrow
                  @ '' internal mechanical/hydraulic loss''"

definition note_pump_delta :: string where
  "note_pump_delta = ''Pump DE-NDE '' @ u_delta @ ''T >15'' @ u_degree @ ''C '' @ u_arrow
                  @ '' Localized fault on DE bearing''"

definition note_motor_hotter :: string where
  "note_motor_hotter = ''Motor DE > Pump DE '' @ u_arrow @ '' Possible electrical origin''"

definition note_critical_temperature :: string where
  "note_critical_temperature = u_warning_sign @ '' Critical bearing temperature detected''"

record integrated_result =
  system_diagnosis :: string
  system_confidence :: int
  system_severity :: severity
  location :: string
  domain_breakdown :: "diagnosis_result \<times> diagnosis_result \<times> diagnosis_result"
  correlation_notes :: "string list"
  system_temperature_notes :: "temp_note list"

text \<open>The three correlation rules, each an \<open>if\<close> of the source on its own: the state
  is the correlation bonus, the list of correlated faults and the diagnosis label.\<close>

definition rule1_holds :: "diagnosis_result \<Rightarrow> diagnosis_result \<Rightarrow> diagnosis_result \<Rightarrow> bool" where
  "rule1_holds mech_result hyd_result elec_result =
     (fault_type elec_result = ''voltage''
      \<and> diagnosis mech_result \<in> set [''MISALIGNMENT'', ''LOOSENESS'']
      \<and> details_head_dev (details hyd_result) < - 5)"

definition rule2_holds :: "diagnosis_result \<Rightarrow> diagnosis_result \<Rightarrow> diagnosis_result \<Rightarrow> bool" where
  "rule2_holds mech_result hyd_result elec_result =
     (fault_type hyd_result = ''cavitation'' \<and> fault_type mech_result = ''wear''
      \<and> details_current_unbalance (details elec_result) > 5)"

definition rule3_holds :: "diagnosis_result \<Rightarrow> diagnosis_result \<Rightarrow> diagnosis_result \<Rightarrow> bool" where
  "rule3_holds mech_result hyd_result elec_result =
     (diagnosis elec_result = ''OVER_LOAD'' \<and> fault_type hyd_result = ''efficiency'')"

definition apply_rule ::
  "bool \<Rightarrow> int \<Rightarrow> string \<Rightarrow> string \<Rightarrow> int \<times> string list \<times> string \<Rightarrow> int \<times> string list \<times> string" where
  "apply_rule cond bonus note label st =
     (case st of (correlation_bonus, correlated_faults, diag) \<Rightarrow>
        if cond then (correlation_bonus + bonus, correlated_faults @ [note], label)
        else (correlation_bonus, correlated_faults, diag))"

definition correlation_rules ::
  "diagnosis_result \<Rightarrow> diagnosis_result \<Rightarrow> diagnosis_result \<Rightarrow> int \<times> string list \<times> string" where
  "correlation_rules mech_result hyd_result elec_result =
     (let st = (0, [], no_correlation_diagnosis);
          st = apply_rule (rule1_holds mech_result hyd_result elec_result) 15 note_rule1
                 ''Electrical-Mechanical-Hydraulic Coupled Fault'' st;
          st = apply_rule (rule2_holds mech_result hyd_result elec_result) 20 note_rule2
                 ''Cascading Failure: Cavitation Origin'' st;
          st = apply_rule (rule3_holds mech_result hyd_result elec_result) 10 note_rule3
                 ''Internal Loss Investigation Required'' st
      in st)"

text \<open>\<open>if temp_data:\<close> is false for \<open>None\<close> and for the empty dict.\<close>

definition temp_data_truthy :: "temp_dict option \<Rightarrow> bool" where
  "temp_data_truthy temp_data = (case temp_data of None \<Rightarrow> False | Some d \<Rightarrow> d \<noteq> [])"

text \<open>The loop \<open>for temp in temp_data.values(): if temp and temp > critical_min: ...; break\<close>:
  whether its body runs for some value.\<close>

fun critical_scan :: "real option list \<Rightarrow> bool" where
  "critical_scan [] = False"
| "critical_scan (temp # temps) =
     (if (case temp of None \<Rightarrow> False | Some t \<Rightarrow> t \<noteq> 0 \<and> t > critical_min) then True
      else critical_scan temps)"

text \<open>\<open>np.mean(confidences) if confidences else 0\<close> over the confidences above 0.\<close>

definition base_confidence :: "diagnosis_result list \<Rightarrow> real" where
  "base_confidence results =
     (let confidences = [confidence r. r \<leftarrow> results, confidence r > 0]
      in if confidences = [] then 0
         else real_of_int (sum_list confidences) / real (length confidences))"

text \<open>The block "Temperature Adjustment" of the aggregator: the state is the
  correlation bonus, the temperature notes and the list of correlated faults.\<close>

definition temperature_adjustment ::
  "temp_dict option \<Rightarrow> string \<Rightarrow> int \<Rightarrow> string list \<Rightarrow> int \<times> temp_note list \<times> string list" where
  "temperature_adjustment temp_data mech_fault correlation_bonus correlated_faults =
     (if temp_data_truthy temp_data then
        (let td = the temp_data;
             (temp_adjustment, temp_notes) =
                calculate_temperature_confidence_adjustment td (mech_fault \<noteq> ''normal'');
             correlated_faults =
                (if temp_truthy td ''Pump_DE'' \<and> temp_truthy td ''Pump_NDE''
                    \<and> \<bar>temp_at td ''Pump_DE'' - temp_at td ''Pump_NDE''\<bar> > delta_threshold
                 then correlated_faults @ [note_pump_delta] else correlated_faults);
             correlated_faults =
                (if temp_truthy td ''Motor_DE'' \<and> temp_truthy td ''Pump_DE''
                    \<and> temp_at td ''Motor_DE'' > temp_at td ''Pump_DE'' + 10
                 then correlated_faults @ [note_motor_hotter] else correlated_faults)
         in (correlation_bonus + temp_adjustment, temp_notes, correlated_faults))
      else (correlation_bonus, [], correlated_faults))"

text \<open>The block "Overall Severity".\<close>

definition overall_severity :: "severity \<Rightarrow> severity \<Rightarrow> severity \<Rightarrow> severity" where
  "overall_severity mech_sev hyd_sev elec_sev =
     (let severities = [mech_sev, hyd_sev, elec_sev]
      in if High \<in> set severities then High
         else if Medium \<in> set severities then Medium
         else Low)"

text \<open>The block "Critical Temperature Override".\<close>

definition critical_temperature_override ::
  "temp_dict option \<Rightarrow> severity \<Rightarrow> string list \<Rightarrow> severity \<times> string list" where
  "critical_temperature_override temp_data sev correlated_faults =
     (if temp_data_truthy temp_data \<and> critical_scan (map snd (the temp_data))
      then (High, correlated_faults @ [note_critical_temperature])
      else (sev, correlated_faults))"

definition aggregate_cross_domain_diagnosis ::
  "diagnosis_result \<Rightarrow> diagnosis_result \<Rightarrow> diagnosis_result \<Rightarrow> (string \<times> string) list
     \<Rightarrow> temp_dict option \<Rightarrow> integrated_result" where
  "aggregate_cross_domain_diagnosis mech_result hyd_result elec_result shared_context temp_data =
     (let mech_fault = fault_type mech_result;
          mech_sev = severity mech_result;
          hyd_sev = severity hyd_result;
          elec_sev = severity elec_result;
          (correlation_bonus, correlated_faults, diag) =
             correlation_rules mech_result hyd_result elec_result;
          (correlation_bonus, temp_notes, correlated_faults) =
             temperature_adjustment temp_data mech_fault correlation_bonus correlated_faults;
          sev = overall_severity mech_sev hyd_sev elec_sev;
          (sev, correlated_faults) =
             critical_temperature_override temp_data sev correlated_faults;
          base = base_confidence [mech_result, hyd_result, elec_result]
      in \<lparr>system_diagnosis = diag,
          system_confidence = min 95 (py_int (base + real_of_int correlation_bonus)),
          system_severity = sev,
          location = ''N/A'',
          domain_breakdown = (mech_result, hyd_result, elec_result),
          correlation_notes =
            (if correlated_faults \<noteq> [] then correlated_faults else [no_correlation_note]),
          system_temperature_notes = temp_notes\<rparr>)"

subsection \<open>Quantities named by the specification\<close>

text \<open>The two unbalance percentages of a calculator result, an error passed through.\<close>

definition unbalance_outputs :: "py_error + electrical_calc \<Rightarrow> py_error + real \<times> real" where
  "unbalance_outputs res =
     map_sum id (\<lambda>r. (voltage_unbalance_percent r, current_unbalance_percent r)) res"

text \<open>A phase value the calculator can receive without leaving the normal range of
  the doubles in any operation of its unbalance computations: a double that is 0 or of
  a magnitude between 2 to the power -200 and 2 to the power 200.\<close>

definition is_double :: "real \<Rightarrow> bool" where
  "is_double x = (fl x = x)"

definition phase_value :: "real \<Rightarrow> bool" where
  "phase_value x =
     (is_double x \<and> (x = 0 \<or> (2 powi (- 200) \<le> \<bar>x\<bar> \<and> \<bar>x\<bar> \<le> 2 powi 200)))"

text \<open>Measurements for which no float operation of the mechanical diagnoser overflows:
  velocities and FFT amplitudes of a magnitude of at most 10 to the power 300. Beyond
  that a product can become infinite, on which Python's \<open>int\<close> raises.\<close>

definition finite_magnitudes :: "(string \<times> real) list \<Rightarrow> (real \<times> real) list \<Rightarrow> bool" where
  "finite_magnitudes vel_data fft_champ_data =
     (list_all (\<lambda>item. \<bar>snd item\<bar> \<le> 10 ^ 300) vel_data
      \<and> list_all (\<lambda>p. \<bar>snd p\<bar> \<le> 10 ^ 300) fft_champ_data)"

text \<open>The total bonus of the aggregator: the summed bonus of the correlation rules plus
  the temperature adjustment, which is added only for a non-empty temperature map.\<close>

definition total_bonus ::
  "diagnosis_result \<Rightarrow> diagnosis_result \<Rightarrow> diagnosis_result \<Rightarrow> temp_dict option \<Rightarrow> int" where
  "total_bonus mech_result hyd_result elec_result temp_data =
     fst (correlation_rules mech_result hyd_result elec_result)
     + (if temp_data_truthy temp_data
        then fst (calculate_temperature_confidence_adjustment (the temp_data)
                    (fault_type mech_result \<noteq> ''normal''))
        else 0)"

text \<open>The integrated confidence in the specification's words: the clamp at 95 of
  round(mean + total bonus), with rounding to the nearest integer.\<close>

definition spec_integrated_confidence :: "diagnosis_result list \<Rightarrow> int \<Rightarrow> int" where
  "spec_integrated_confidence results bonus =
     min 95 (round (base_confidence results + real_of_int bonus))"


text \<open>The peak amplitude in the specification's words: the amplitude of the supplied
  peak nearest to the target frequency among those within 5 percent of the target,
  and 0 when there is none.\<close>

definition spec_nearest_peak_amp :: "(real \<times> real) list \<Rightarrow> real \<Rightarrow> real" where
  "spec_nearest_peak_amp fft target =
     (let in_band = [p \<leftarrow> fft. \<bar>fst p - target\<bar> \<le> 0.05 * target]
      in if in_band = [] then 0
         else snd (arg_min_list (\<lambda>p. \<bar>fst p - target\<bar>) in_band))"

subsection \<open>Example inputs\<close>

abbreviation ex_mech_normal :: diagnosis_result where
  "ex_mech_normal \<equiv>
     \<lparr>diagnosis = ''Normal'', confidence = 99, severity = Low, fault_type = ''normal'',
      domain = ''mechanical'', details = NoDetails,
      champion_point = Some ''Tidak Ada (Normal)'', temperature_notes = []\<rparr>"

abbreviation ex_mech_undiagnosed :: diagnosis_result where
  "ex_mech_undiagnosed \<equiv>
     \<lparr>diagnosis = ''Tidak Terdiagnosa'', confidence = 40, severity = Medium,
      fault_type = ''low_freq'', domain = ''mechanical'', details = NoDetails,
      champion_point = Some ''Pump DE Axial'', temperature_notes = []\<rparr>"

abbreviation ex_hyd_normal :: diagnosis_result where
  "ex_hyd_normal \<equiv>
     \<lparr>diagnosis = ''NORMAL_OPERATION'', confidence = 95, severity = Low,
      fault_type = ''normal'', domain = ''hydraulic'',
      details = HydDetails [(''head_dev'', 0), (''eff_dev'', 0), (''flow_dev'', 0)] 2,
      champion_point = None, temperature_notes = []\<rparr>"

abbreviation ex_elec_normal :: diagnosis_result where
  "ex_elec_normal \<equiv>
     \<lparr>diagnosis = ''NORMAL_ELECTRICAL'', confidence = 95, severity = Low,
      fault_type = ''normal'', domain = ''electrical'',
      details = ElecDetails (1 / 2) (100 / 83) (1660 / 17),
      champion_point = None, temperature_notes = []\<rparr>"

text \<open>A result with confidence 5 and two results with confidence 0: inside the range
  [0, 100] of a DiagnosisResult, below what the three diagnosers return.\<close>

abbreviation ex_low_confidence :: "int \<Rightarrow> diagnosis_result" where
  "ex_low_confidence c \<equiv>
     \<lparr>diagnosis = ''Normal'', confidence = c, severity = Low, fault_type = ''normal'',
      domain = ''mechanical'', details = NoDetails,
      champion_point = None, temperature_notes = []\<rparr>"

text \<open>Results on which the first and the second correlation rule both hold.\<close>

abbreviation ex_mech_coupled :: diagnosis_result where
  "ex_mech_coupled \<equiv>
     \<lparr>diagnosis = ''MISALIGNMENT'', confidence = 80, severity = Medium,
      fault_type = ''wear'', domain = ''mechanical'', details = NoDetails,
      champion_point = Some ''Pump DE Axial'', temperature_notes = []\<rparr>"

abbreviation ex_hyd_cavitation :: diagnosis_result where
  "ex_hyd_cavitation \<equiv>
     \<lparr>diagnosis = ''CAVITATION'', confidence = 70, severity = Medium,
      fault_type = ''cavitation'', domain = ''hydraulic'',
      details = HydDetails [(''head_dev'', - 8), (''eff_dev'', - 7)] (2 / 5),
      champion_point = None, temperature_notes = []\<rparr>"

abbreviation ex_elec_voltage :: diagnosis_result where
  "ex_elec_voltage \<equiv>
     \<lparr>diagnosis = ''VOLTAGE_UNBALANCE'', confidence = 75, severity = Medium,
      fault_type = ''voltage'', domain = ''electrical'',
      details = ElecDetails 2 6 90,
      champion_point = None, temperature_notes = []\<rparr>"

abbreviation ex_temps :: "real \<Rightarrow> real \<Rightarrow> temp_dict" where
  "ex_temps pump_de pump_nde \<equiv>
     [(''Pump_DE'', Some pump_de), (''Pump_NDE'', Some pump_nde),
      (''Motor_DE'', Some 68), (''Motor_NDE'', Some 66)]"






text \<open>The mechanical measurements of the examples: band readings at their entry
  defaults, and velocity maps over the twelve points in the canonical order.\<close>

abbreviation ex_bands0 :: "(string \<times> real) list" where
  "ex_bands0 \<equiv> [(''Band1'', 0.2), (''Band2'', 0.15), (''Band3'', 0.1)]"

abbreviation ex_bands_normal :: "(string \<times> (string \<times> real) list) list" where
  "ex_bands_normal \<equiv> zip points (replicate 12 ex_bands0)"

text \<open>Pump DE Horizontal reads a severe bearing pattern, Pump DE Vertical, visited
  next, a developed one with Band2 below three times its baseline.\<close>

abbreviation ex_bands_downgrade :: "(string \<times> (string \<times> real) list) list" where
  "ex_bands_downgrade \<equiv>
     zip points ([[(''Band1'', 1.0), (''Band2'', 0.5), (''Band3'', 0.1)],
                  [(''Band1'', 0.2), (''Band2'', 0.5), (''Band3'', 0.3)]]
                 @ replicate 10 ex_bands0)"

abbreviation ex_vel_normal :: "(string \<times> real) list" where
  "ex_vel_normal \<equiv> zip points (replicate 12 1)"

abbreviation ex_vel_unbalance :: "(string \<times> real) list" where
  "ex_vel_unbalance \<equiv> zip points (8 # replicate 11 1)"

text \<open>Pump DE Axial and Pump NDE Axial tie at 5 mm/s.\<close>

abbreviation ex_vel_tie :: "(string \<times> real) list" where
  "ex_vel_tie \<equiv> zip points [1, 1, 5, 1, 1, 5, 1, 1, 1, 1, 1, 1]"

text \<open>A velocity map and a band map without the point Motor NDE Axial, and a
  temperature map without Pump_NDE.\<close>

abbreviation ex_vel_missing :: "(string \<times> real) list" where
  "ex_vel_missing \<equiv> zip (butlast points) (replicate 11 1)"

abbreviation ex_bands_missing :: "(string \<times> (string \<times> real) list) list" where
  "ex_bands_missing \<equiv> zip (butlast points) (replicate 11 ex_bands0)"

abbreviation ex_temps_missing :: temp_dict where
  "ex_temps_missing \<equiv> [(''Pump_DE'', Some 85)] @ [(''Motor_DE'', Some 68), (''Motor_NDE'', Some 66)]"

section \<open>Theorems\<close>

subsection \<open>Helper lemmas\<close>

lemma py_max_list3_scale:
  assumes "0 < (k::real)"
  shows "py_max_list (k * a) [k * b, k * c] = k * py_max_list a [b, c]"
  using assms by (simp add: py_max_list_def)

lemma ilog2_bounds: "n \<ge> 1 \<Longrightarrow> 2 ^ ilog2 n \<le> n \<and> n < 2 ^ (ilog2 n + 1)"
proof (induction n rule: ilog2.induct)
  case (1 n)
  show ?case
  proof (cases "n < 2")
    case True
    with 1(2) have "n = 1" by simp
    then show ?thesis by (simp add: ilog2.simps)
  next
    case False
    then have "n div 2 \<ge> 1" by simp
    with 1(1)[OF False] have ih: "2 ^ ilog2 (n div 2) \<le> n div 2" "n div 2 < 2 ^ (ilog2 (n div 2) + 1)"
      by auto
    have e: "ilog2 n = Suc (ilog2 (n div 2))" using False by (simp add: ilog2.simps)
    show ?thesis unfolding e using ih by auto
  qed
qed

lemma powi_nat: "(2::real) powi (int n) = 2 ^ n"
  by simp

lemma powi_neg_nat: "(2::real) powi (- int n) = 1 / 2 ^ n"
  by (simp add: power_int_minus field_simps)

lemma real_pow2_le: "2 ^ k \<le> (m::nat) \<Longrightarrow> (2::real) ^ k \<le> real m"
  using of_nat_mono[of "2 ^ k" m, where 'a = real] by simp

lemma fexp_bounds:
  assumes "x \<noteq> 0"
  shows "2 powi (fexp x) \<le> \<bar>x\<bar> \<and> \<bar>x\<bar> < 2 powi (fexp x + 1)"
proof (cases "\<bar>x\<bar> \<ge> 1")
  case True
  define m where "m = nat \<lfloor>\<bar>x\<bar>\<rfloor>"
  have fl0: "0 \<le> \<lfloor>\<bar>x\<bar>\<rfloor>" by simp
  have rm: "real m = of_int \<lfloor>\<bar>x\<bar>\<rfloor>" unfolding m_def using fl0 by simp
  have m1: "m \<ge> 1" using True by (simp add: m_def le_nat_iff le_floor_iff)
  have ml: "real m \<le> \<bar>x\<bar>" and mu: "\<bar>x\<bar> < real m + 1"
    unfolding rm using floor_correct[of "\<bar>x\<bar>"] by auto
  from ilog2_bounds[OF m1] have b: "2 ^ ilog2 m \<le> m" "m < 2 ^ (ilog2 m + 1)" by auto
  have e: "fexp x = int (ilog2 m)" using True by (simp add: fexp_def m_def)
  have e1: "fexp x + 1 = int (ilog2 m + 1)" using e by simp
  have "(2::real) ^ ilog2 m \<le> real m" using b(1) by (rule real_pow2_le)
  then have l: "2 powi (fexp x) \<le> \<bar>x\<bar>" unfolding e powi_nat using ml by linarith
  have "m + 1 \<le> 2 ^ (ilog2 m + 1)" using b(2) by simp
  then have "real (m + 1) \<le> real (2 ^ (ilog2 m + 1))" by (rule of_nat_mono)
  then have "real m + 1 \<le> 2 ^ (ilog2 m + 1)" by simp
  then have u: "\<bar>x\<bar> < 2 powi (fexp x + 1)"
    unfolding e1 powi_nat using mu by linarith
  show ?thesis using l u by simp
next
  case False
  then have x1: "\<bar>x\<bar> < 1" and x0: "0 < \<bar>x\<bar>" using assms by auto
  define y where "y = 1 / \<bar>x\<bar>"
  have y1: "1 < y" unfolding y_def using x1 x0 by (simp add: field_simps)
  define m where "m = nat \<lceil>y\<rceil>"
  have c2: "2 \<le> \<lceil>y\<rceil>" using y1 by (simp add: le_ceiling_iff)
  have rm: "real m = of_int \<lceil>y\<rceil>" unfolding m_def using c2 by (simp del: numeral_le_ceiling)
  have m2: "m \<ge> 2" unfolding m_def using c2 by arith
  have ml: "real m - 1 < y" and mu: "y \<le> real m"
    unfolding rm using ceiling_correct[of y] by auto
  define j where "j = ilog2 (m - 1)"
  have "m - 1 \<ge> 1" using m2 by simp
  from ilog2_bounds[OF this] have b: "2 ^ j \<le> m - 1" "m - 1 < 2 ^ (j + 1)"
    unfolding j_def by auto
  have e: "fexp x = - int j - 1"
    using False by (simp add: fexp_def m_def y_def j_def)
  have "(2::real) ^ j \<le> real (m - 1)" using b(1) by (rule real_pow2_le)
  then have "(2::real) ^ j \<le> real m - 1" using m2 by (simp add: of_nat_diff)
  then have yj: "2 ^ j < y" using ml by linarith
  have "m \<le> 2 ^ (j + 1)" using b(2) by simp
  then have "real m \<le> real (2 ^ (j + 1))" by (rule of_nat_mono)
  then have "real m \<le> 2 ^ (j + 1)" by simp
  then have yj1: "y \<le> 2 ^ (j + 1)" using mu by linarith
  have xy: "\<bar>x\<bar> = 1 / y" unfolding y_def by simp
  have ypos: "0 < y" using y1 by simp
  have e1: "fexp x = - int (j + 1)" "fexp x + 1 = - int j" using e by auto
  have p1: "(0::real) < 2 ^ (j + 1)" and p0: "(0::real) < 2 ^ j" by simp_all
  have "1 / 2 ^ (j + 1) \<le> 1 / y"
    using yj1 ypos p1 by (intro divide_left_mono) simp_all
  then have l: "2 powi (fexp x) \<le> \<bar>x\<bar>"
    unfolding e1(1) powi_neg_nat xy .
  have "1 / y < 1 / 2 ^ j"
    using yj ypos p0 by (simp add: frac_less2)
  then have u: "\<bar>x\<bar> < 2 powi (fexp x + 1)"
    unfolding e1(2) powi_neg_nat xy .
  show ?thesis using l u by simp
qed

lemma powi_mono_real: "a \<le> b \<Longrightarrow> (2::real) powi a \<le> 2 powi b"
  by (rule power_int_increasing) simp_all

lemma fexp_unique:
  assumes "2 powi e \<le> \<bar>x\<bar>" and "\<bar>x\<bar> < 2 powi (e + 1)"
  shows "fexp x = e"
proof -
  have "(0::real) < 2 powi e" by simp
  with assms(1) have "0 < \<bar>x\<bar>" by linarith
  then have x0: "x \<noteq> 0" by auto
  from fexp_bounds[OF x0] have b: "2 powi (fexp x) \<le> \<bar>x\<bar>" "\<bar>x\<bar> < 2 powi (fexp x + 1)" by auto
  have "\<not> fexp x + 1 \<le> e"
    using powi_mono_real[of "fexp x + 1" e] b(2) assms(1) by linarith
  moreover have "\<not> e + 1 \<le> fexp x"
    using powi_mono_real[of "e + 1" "fexp x"] b(1) assms(2) by linarith
  ultimately show ?thesis by linarith
qed

lemma fexp_scale:
  assumes "x \<noteq> 0"
  shows "fexp (2 powi n * x) = fexp x + n"
proof (rule fexp_unique)
  from fexp_bounds[OF assms] have b: "2 powi (fexp x) \<le> \<bar>x\<bar>" "\<bar>x\<bar> < 2 powi (fexp x + 1)" by auto
  have p: "(0::real) < 2 powi n" by simp
  have a: "\<bar>2 powi n * x\<bar> = 2 powi n * \<bar>x\<bar>" by (simp add: abs_mult)
  show "2 powi (fexp x + n) \<le> \<bar>2 powi n * x\<bar>"
    unfolding a using b(1) p by (simp add: power_int_add mult.commute)
  show "\<bar>2 powi n * x\<bar> < 2 powi (fexp x + n + 1)"
    unfolding a using b(2) p by (simp add: power_int_add mult.commute mult_ac)
qed

lemma fl_scale: "fl (2 powi n * x) = 2 powi n * fl x"
proof (cases "x = 0")
  case True
  then show ?thesis by (simp add: fl_def)
next
  case False
  have nz: "2 powi n * x \<noteq> 0" using False by simp
  have r: "(2::real) powi (fexp x + n - 52) = 2 powi n * 2 powi (fexp x - 52)"
  proof -
    have "(2::real) powi (fexp x + n - 52) = 2 powi (n + (fexp x - 52))"
      by (simp add: algebra_simps)
    also have "\<dots> = 2 powi n * 2 powi (fexp x - 52)"
      by (rule power_int_add) simp
    finally show ?thesis .
  qed
  have q: "2 powi n * x / 2 powi (fexp x + n - 52) = x / 2 powi (fexp x - 52)"
    unfolding r by simp
  show ?thesis
    using False nz unfolding fl_def fexp_scale[OF False] Let_def q
    by (simp add: r)
qed

lemma float_add_scale: "float_add (2 powi n * a) (2 powi n * b) = 2 powi n * float_add a b"
  unfolding float_add_def distrib_left[symmetric] by (rule fl_scale)

lemma float_sub_scale: "float_sub (2 powi n * a) (2 powi n * b) = 2 powi n * float_sub a b"
  unfolding float_sub_def right_diff_distrib[symmetric] by (rule fl_scale)

lemma float_div3: "float_truediv a 3 = Inr (fl (a / 3))"
  by (simp add: float_truediv_def)

lemma fl_div3_scale: "fl (2 powi n * a / 3) = 2 powi n * fl (a / 3)"
  using fl_scale[of n "a / 3"] by simp

lemma float_truediv_scale:
  "float_truediv (2 powi n * a) (2 powi n * b) = float_truediv a b"
  by (simp add: float_truediv_def)

lemma abs_powi_scale: "\<bar>2 powi n * (d::real)\<bar> = 2 powi n * \<bar>d\<bar>"
  by (simp add: abs_mult)

lemma powi_pos_iff: "(0 < 2 powi n * (a::real)) = (0 < a)"
proof -
  have p: "(0::real) < 2 powi n" by simp
  show ?thesis
  proof
    assume "0 < 2 powi n * a"
    with p show "0 < a" by (rule zero_less_mult_pos[rotated])
  next
    assume "0 < a"
    with p show "0 < 2 powi n * a" by (rule mult_pos_pos)
  qed
qed

lemma unbalance_double_scale:
  "(if 2 powi n * va > 0
    then (case float_truediv
                 (py_max_list \<bar>float_sub (2 powi n * a) (2 powi n * va)\<bar>
                    [\<bar>float_sub (2 powi n * b) (2 powi n * va)\<bar>,
                     \<bar>float_sub (2 powi n * c) (2 powi n * va)\<bar>])
                 (2 powi n * va) of
            Inl e \<Rightarrow> Inl e | Inr q \<Rightarrow> Inr (float_mul q 100))
    else Inr 0) =
   (if va > 0
    then (case float_truediv
                 (py_max_list \<bar>float_sub a va\<bar> [\<bar>float_sub b va\<bar>, \<bar>float_sub c va\<bar>]) va of
            Inl e \<Rightarrow> Inl e | Inr q \<Rightarrow> Inr (float_mul q 100))
    else Inr 0)"
proof -
  have p: "(0::real) < 2 powi n" by simp
  show ?thesis
    unfolding float_sub_scale abs_powi_scale py_max_list3_scale[OF p] float_truediv_scale
      powi_pos_iff
    by (rule refl)
qed

lemma fl_zero: "fl 0 = 0"
  by (simp add: fl_def)

lemma fl_examples_1:
  "fl (- 6) = - 6"
  "fl (1 / 200) = 5764607523034235 / 1152921504606846976"
  "fl (6567749456581973 / 11962686510202880) = 4945129002602897 / 9007199254740992"
  "fl (328387472829099 / 140737488355328) = 328387472829099 / 140737488355328"
  "fl 6 = 6"
  "fl 49 = 49"
  "fl 100 = 100"
  "fl 300 = 300"
  "fl 420 = 420"
  "fl 804 = 804"
  by (simp_all add: fl_def fexp_def rne_def ilog2.simps Let_def power_int_minus)

lemma fl_examples_2:
  "fl (- (7 / 2)) = - (7 / 2)"
  "fl (1 / 20) = 3602879701896397 / 72057594037927936"
  "fl 1 = 1"
  "fl 3 = 3"
  "fl 7 = 7"
  "fl (123628225065072425 / 2251799813685248) = 7726764066567027 / 140737488355328"
  "fl 140 = 140"
  "fl 398 = 398"
  "fl 796 = 796"
  "fl 1200 = 1200"
  by (simp_all add: fl_def fexp_def rne_def ilog2.simps Let_def power_int_minus)

lemma fl_examples_3:
  "fl (- 2) = - 2"
  "fl (328387472829099 / 6567749456581973) = 7205759403792801 / 144115188075855872"
  "fl (28 / 17) = 3708846751952173 / 2251799813685248"
  "fl (90071992547409925 / 18014398509481984) = 5"
  "fl (91 / 2) = 91 / 2"
  "fl 91 = 91"
  "fl (92721168798804325 / 562949953421312) = 2897536524962635 / 17592186044416"
  "fl 400 = 400"
  "fl 800 = 800"
  "fl 2406 = 2406"
  by (simp_all add: fl_def fexp_def rne_def ilog2.simps Let_def power_int_minus)

lemma fl_examples_4:
  "fl (- (164193736414549 / 140737488355328)) = - (164193736414549 / 140737488355328)"
  "fl (144115188075855875 / 288230376151711744) = 1 / 2"
  "fl 2 = 2"
  "fl (180143985094820025 / 36028797018963968) = 2814749767106563 / 562949953421312"
  "fl (140 / 3) = 6567749456581973 / 140737488355328"
  "fl 98 = 98"
  "fl 273 = 273"
  "fl 402 = 402"
  "fl 802 = 802"
  "fl 3600 = 3600"
  by (simp_all add: fl_def fexp_def rne_def ilog2.simps Let_def power_int_minus)

lemmas fl_examples = fl_examples_1 fl_examples_2 fl_examples_3 fl_examples_4

lemmas float_ops = fl_zero calculate_electrical_parameters_def float_add_def float_sub_def
  float_mul_def float_truediv_def py_max_list_def unbalance_outputs_def Let_def

lemma ex_unbalance_original:
  "unbalance_outputs (calculate_electrical_parameters 400 402 398 45.5 45.5 49 400 85)
     = Inr (1 / 2, 2814749767106563 / 562949953421312)"
  by (simp add: float_ops fl_examples)

lemma py_int_lower: "real_of_int n \<le> x \<Longrightarrow> n \<le> 0 \<Longrightarrow> n \<le> py_int x"
  unfolding py_int_def by (auto simp: le_floor_iff le_ceiling_iff)

lemma py_int_nonneg: "0 \<le> x \<Longrightarrow> 0 \<le> py_int x"
  unfolding py_int_def by simp

lemma correlation_rules_eq:
  "correlation_rules m h e =
     ((if rule1_holds m h e then 15 else 0) + (if rule2_holds m h e then 20 else 0)
        + (if rule3_holds m h e then 10 else 0),
      (if rule1_holds m h e then [note_rule1] else [])
        @ (if rule2_holds m h e then [note_rule2] else [])
        @ (if rule3_holds m h e then [note_rule3] else []),
      (if rule3_holds m h e then ''Internal Loss Investigation Required''
       else if rule2_holds m h e then ''Cascading Failure: Cavitation Origin''
       else if rule1_holds m h e then ''Electrical-Mechanical-Hydraulic Coupled Fault''
       else no_correlation_diagnosis))"
  by (simp add: correlation_rules_def apply_rule_def Let_def)

lemma correlation_bonus_nonneg: "0 \<le> fst (correlation_rules m h e)"
  by (simp add: correlation_rules_eq)

lemma temp_adjustment_clamped:
  "\<exists>a. fst (calculate_temperature_confidence_adjustment td c) = min 20 (max (- 10) a)"
  unfolding calculate_temperature_confidence_adjustment_def Let_def split_def fst_conv
  by (rule exI) (rule refl)

lemma temp_adjustment_bounds:
  "- 10 \<le> fst (calculate_temperature_confidence_adjustment td c)"
  "fst (calculate_temperature_confidence_adjustment td c) \<le> 20"
proof -
  obtain a where
    "fst (calculate_temperature_confidence_adjustment td c) = min 20 (max (- 10) a)"
    using temp_adjustment_clamped by blast
  then show "- 10 \<le> fst (calculate_temperature_confidence_adjustment td c)"
    and "fst (calculate_temperature_confidence_adjustment td c) \<le> 20"
    by simp_all
qed

lemma base_confidence_nonneg: "0 \<le> base_confidence rs"
proof -
  have "0 \<le> sum_list [confidence r. r \<leftarrow> rs, confidence r > 0]"
    by (rule sum_list_nonneg) auto
  then show ?thesis by (simp add: base_confidence_def Let_def)
qed

lemma total_bonus_lower: "- 10 \<le> total_bonus m h e td"
  using correlation_bonus_nonneg[of m h e]
        temp_adjustment_bounds(1)[of "the td" "fault_type m \<noteq> ''normal''"]
  by (simp add: total_bonus_def)

lemma temperature_adjustment_bonus:
  "fst (temperature_adjustment td mf cb cf) =
     cb + (if temp_data_truthy td
           then fst (calculate_temperature_confidence_adjustment (the td) (mf \<noteq> ''normal''))
           else 0)"
  by (simp add: temperature_adjustment_def Let_def split_def)

lemma temperature_adjustment_faults:
  "\<exists>extra. snd (snd (temperature_adjustment td mf cb cf)) = cf @ extra"
  by (simp add: temperature_adjustment_def Let_def split_def)

lemma critical_override_faults:
  "\<exists>extra. snd (critical_temperature_override td sev cf) = cf @ extra"
  by (simp add: critical_temperature_override_def)

lemma aggregate_confidence:
  "system_confidence (aggregate_cross_domain_diagnosis m h e ctx td) =
     min 95 (py_int (base_confidence [m, h, e] + real_of_int (total_bonus m h e td)))"
  by (simp add: aggregate_cross_domain_diagnosis_def total_bonus_def Let_def split_def
        temperature_adjustment_bonus)

lemma aggregate_diagnosis:
  "system_diagnosis (aggregate_cross_domain_diagnosis m h e ctx td) =
     snd (snd (correlation_rules m h e))"
  by (simp add: aggregate_cross_domain_diagnosis_def Let_def split_def)

lemma aggregate_severity:
  "system_severity (aggregate_cross_domain_diagnosis m h e ctx td) =
     (if temp_data_truthy td \<and> critical_scan (map snd (the td)) then High
      else if High \<in> {severity m, severity h, severity e} then High
      else if Medium \<in> {severity m, severity h, severity e} then Medium else Low)"
  by (simp add: aggregate_cross_domain_diagnosis_def Let_def split_def
        critical_temperature_override_def overall_severity_def)

lemma aggregate_notes:
  "\<exists>extra. correlation_notes (aggregate_cross_domain_diagnosis m h e ctx td) =
     (if fst (snd (correlation_rules m h e)) @ extra = [] then [no_correlation_note]
      else fst (snd (correlation_rules m h e)) @ extra)"
proof -
  let ?cf = "fst (snd (correlation_rules m h e))"
  obtain x1 where x1:
    "snd (snd (temperature_adjustment td (fault_type m) (fst (correlation_rules m h e)) ?cf))
       = ?cf @ x1"
    using temperature_adjustment_faults by blast
  obtain x2 where x2:
    "snd (critical_temperature_override td
            (overall_severity (severity m) (severity h) (severity e)) (?cf @ x1))
       = (?cf @ x1) @ x2"
    using critical_override_faults by blast
  show ?thesis
    apply (rule exI[of _ "x1 @ x2"])
    using x2 by (simp add: aggregate_cross_domain_diagnosis_def Let_def split_def x1)
qed

lemma overall_severity_is_max:
  "sev_rank (overall_severity a b c) = max (sev_rank a) (max (sev_rank b) (sev_rank c))"
  by (cases a; cases b; cases c) (simp_all add: overall_severity_def sev_rank_def)

lemmas example_defs =
  calculate_temperature_confidence_adjustment_def temp_step_def get_temperature_status_def
  temp_truthy_def temp_at_def temp_data_truthy_def normal_max_def elevated_max_def
  warning_max_def critical_min_def delta_threshold_def base_confidence_def py_int_def
  rule1_holds_def rule2_holds_def rule3_holds_def details_head_dev_def
  details_current_unbalance_def dict_get_def

subsection \<open>Hydraulic parameter calculator\<close>

text \<open>
  Claim C8. The hydraulic parameter calculator returns a result for every input (no
  division raises): the head is \<open>delta_p * 10.2 / sg\<close> for \<open>sg > 0\<close> and 0 otherwise; the
  hydraulic power is \<open>flow * head * sg * 9.81 / 3600\<close> when the flow and the head are
  both positive and 0 otherwise; the efficiency is \<open>hydraulic_power / motor_power * 100\<close>
  for a positive motor power and 0 otherwise, whatever the hydraulic power is.
\<close>

theorem hydraulic_parameters_total:
  "\<exists>r. calculate_hydraulic_parameters suction discharge flow motor_power sg fluid_temp = Inr r
     \<and> delta_p_bar r = discharge - suction
     \<and> head_m r = (if sg > 0 then (discharge - suction) * 10.2 / sg else 0)
     \<and> hydraulic_power_kw r =
          (if flow > 0 \<and> head_m r > 0 then flow * head_m r * sg * 9.81 / 3600 else 0)
     \<and> efficiency_percent r =
          (if motor_power > 0 then hydraulic_power_kw r / motor_power * 100 else 0)"
  by (simp add: calculate_hydraulic_parameters_def py_truediv_def Let_def)

text \<open>Degenerate inputs: zero specific gravity and zero motor power give the all-zero
  result for a pressure rise of 3 bar.\<close>

theorem hydraulic_parameters_total_witness:
  "\<exists>r. calculate_hydraulic_parameters 1 4 100 0 0 40 = Inr r
     \<and> delta_p_bar r = 3 \<and> head_m r = 0 \<and> hydraulic_power_kw r = 0
     \<and> efficiency_percent r = 0"
  using hydraulic_parameters_total[of 1 4 100 0 0 40] by auto

subsection \<open>Electrical parameter calculator\<close>

text \<open>
  Claim C10, as amended. When the three line voltages are multiplied by a power of two
  and the three phase currents by a power of two, all of them phase values before and
  after (doubles that are 0 or of a magnitude between 2 to the power -200 and 2 to the
  power 200, so that no operation overflows or underflows), the voltage unbalance and
  the current unbalance computed by the electrical parameter calculator are unchanged,
  and the calculator fails on the scaled input exactly when it fails on the original
  one. For other positive factors the results can differ by rounding.
\<close>

theorem unbalance_power_of_two_invariant:
  assumes "phase_value v1 \<and> phase_value v2 \<and> phase_value v3"
    and "phase_value i1 \<and> phase_value i2 \<and> phase_value i3"
    and "phase_value (2 powi nv * v1) \<and> phase_value (2 powi nv * v2)
         \<and> phase_value (2 powi nv * v3)"
    and "phase_value (2 powi ni * i1) \<and> phase_value (2 powi ni * i2)
         \<and> phase_value (2 powi ni * i3)"
  shows "unbalance_outputs
           (calculate_electrical_parameters (2 powi nv * v1) (2 powi nv * v2) (2 powi nv * v3)
              (2 powi ni * i1) (2 powi ni * i2) (2 powi ni * i3) rated_voltage fla)
       = unbalance_outputs
           (calculate_electrical_parameters v1 v2 v3 i1 i2 i3 rated_voltage fla)"
  unfolding calculate_electrical_parameters_def float_div3 sum.case float_add_scale
    fl_div3_scale Let_def list.map list.sel unbalance_double_scale unbalance_outputs_def
  by (auto simp: float_truediv_def split: sum.splits)

text \<open>Doubling 400/402/398 V and 45.5/45.5/49 A leaves the unbalances at 0.5 and
  5.000000000000005 percent.\<close>

theorem unbalance_power_of_two_invariant_witness:
  "(phase_value 400 \<and> phase_value 402 \<and> phase_value 398)
   \<and> (phase_value 45.5 \<and> phase_value 45.5 \<and> phase_value 49)
   \<and> (phase_value (2 powi 1 * 400) \<and> phase_value (2 powi 1 * 402)
        \<and> phase_value (2 powi 1 * 398))
   \<and> (phase_value (2 powi 1 * 45.5) \<and> phase_value (2 powi 1 * 45.5)
        \<and> phase_value (2 powi 1 * 49))
   \<and> unbalance_outputs
         (calculate_electrical_parameters (2 powi 1 * 400) (2 powi 1 * 402) (2 powi 1 * 398)
            (2 powi 1 * 45.5) (2 powi 1 * 45.5) (2 powi 1 * 49) 400 85)
       = Inr (1 / 2, 2814749767106563 / 562949953421312)"
proof -
  have v: "phase_value 400 \<and> phase_value 402 \<and> phase_value 398"
    by (simp add: phase_value_def is_double_def fl_examples power_int_minus)
  have i: "phase_value 45.5 \<and> phase_value 45.5 \<and> phase_value 49"
    by (simp add: phase_value_def is_double_def fl_examples power_int_minus)
  have v2: "phase_value (2 powi 1 * 400) \<and> phase_value (2 powi 1 * 402)
        \<and> phase_value (2 powi 1 * 398)"
    by (simp add: phase_value_def is_double_def fl_examples power_int_minus)
  have i2: "phase_value (2 powi 1 * 45.5) \<and> phase_value (2 powi 1 * 45.5)
        \<and> phase_value (2 powi 1 * 49)"
    by (simp add: phase_value_def is_double_def fl_examples power_int_minus)
  show ?thesis
    using unbalance_power_of_two_invariant[OF v i v2 i2, of 400 85] v i v2 i2
    unfolding ex_unbalance_original by blast
qed

text \<open>Against C10 as stated: for the currents 45.5/45.5/49 A the code computes the
  current unbalance 5.000000000000005 percent, for the same currents times 3 it computes
  5.0 percent.\<close>

theorem unbalance_scale_counterexample:
  "unbalance_outputs (calculate_electrical_parameters 400 402 398 45.5 45.5 49 400 85)
     = Inr (1 / 2, 2814749767106563 / 562949953421312)
   \<and> unbalance_outputs
        (calculate_electrical_parameters (3 * 400) (3 * 402) (3 * 398)
           (3 * 45.5) (3 * 45.5) (3 * 49) 400 85)
     = Inr (1 / 2, 5)"
  by (simp add: float_ops fl_examples)

subsection \<open>Cross-domain aggregator\<close>

text \<open>
  Claim C7. The three correlation rules are evaluated independently: the summed
  correlation bonus is the sum of +15, +20 and +10 over the rules whose condition holds,
  each such rule appends its note (the aggregator's notes start with them, in rule
  order), and the diagnosis label of the result is that of the last rule that holds, the
  "no correlation" sentinel when none does.
\<close>

theorem correlation_rules_independent:
  "fst (correlation_rules m h e) =
       (if rule1_holds m h e then 15 else 0) + (if rule2_holds m h e then 20 else 0)
         + (if rule3_holds m h e then 10 else 0)
   \<and> fst (snd (correlation_rules m h e)) =
       (if rule1_holds m h e then [note_rule1] else [])
         @ (if rule2_holds m h e then [note_rule2] else [])
         @ (if rule3_holds m h e then [note_rule3] else [])
   \<and> system_diagnosis (aggregate_cross_domain_diagnosis m h e ctx td) =
       (if rule3_holds m h e then ''Internal Loss Investigation Required''
        else if rule2_holds m h e then ''Cascading Failure: Cavitation Origin''
        else if rule1_holds m h e then ''Electrical-Mechanical-Hydraulic Coupled Fault''
        else no_correlation_diagnosis)
   \<and> (\<exists>extra. correlation_notes (aggregate_cross_domain_diagnosis m h e ctx td) =
         (if fst (snd (correlation_rules m h e)) @ extra = [] then [no_correlation_note]
          else fst (snd (correlation_rules m h e)) @ extra))
   \<and> system_confidence (aggregate_cross_domain_diagnosis m h e ctx td) =
       min 95 (py_int (base_confidence [m, h, e]
                 + real_of_int (fst (correlation_rules m h e)
                     + (if temp_data_truthy td
                        then fst (calculate_temperature_confidence_adjustment (the td)
                                    (fault_type m \<noteq> ''normal''))
                        else 0))))"
proof (intro conjI)
  show "\<exists>extra. correlation_notes (aggregate_cross_domain_diagnosis m h e ctx td) =
         (if fst (snd (correlation_rules m h e)) @ extra = [] then [no_correlation_note]
          else fst (snd (correlation_rules m h e)) @ extra)"
    by (rule aggregate_notes)
  show "system_diagnosis (aggregate_cross_domain_diagnosis m h e ctx td) =
       (if rule3_holds m h e then ''Internal Loss Investigation Required''
        else if rule2_holds m h e then ''Cascading Failure: Cavitation Origin''
        else if rule1_holds m h e then ''Electrical-Mechanical-Hydraulic Coupled Fault''
        else no_correlation_diagnosis)"
    by (simp add: aggregate_diagnosis correlation_rules_eq)
  show "system_confidence (aggregate_cross_domain_diagnosis m h e ctx td) =
       min 95 (py_int (base_confidence [m, h, e]
                 + real_of_int (fst (correlation_rules m h e)
                     + (if temp_data_truthy td
                        then fst (calculate_temperature_confidence_adjustment (the td)
                                    (fault_type m \<noteq> ''normal''))
                        else 0))))"
    using aggregate_confidence[of m h e ctx td] by (simp only: total_bonus_def)
qed (simp_all add: correlation_rules_eq)

text \<open>The first and the second rule both hold: the bonuses sum to 35, both notes are
  kept, and the label is the second rule's.\<close>

theorem correlation_rules_independent_witness:
  "rule1_holds ex_mech_coupled ex_hyd_cavitation ex_elec_voltage
   \<and> rule2_holds ex_mech_coupled ex_hyd_cavitation ex_elec_voltage
   \<and> \<not> rule3_holds ex_mech_coupled ex_hyd_cavitation ex_elec_voltage
   \<and> fst (correlation_rules ex_mech_coupled ex_hyd_cavitation ex_elec_voltage) = 35
   \<and> fst (snd (correlation_rules ex_mech_coupled ex_hyd_cavitation ex_elec_voltage))
       = [note_rule1, note_rule2]
   \<and> system_diagnosis (aggregate_cross_domain_diagnosis ex_mech_coupled ex_hyd_cavitation
         ex_elec_voltage [] None) = ''Cascading Failure: Cavitation Origin''
   \<and> system_confidence (aggregate_cross_domain_diagnosis ex_mech_coupled ex_hyd_cavitation
         ex_elec_voltage [] None) = 95"
proof -
  have r: "rule1_holds ex_mech_coupled ex_hyd_cavitation ex_elec_voltage"
          "rule2_holds ex_mech_coupled ex_hyd_cavitation ex_elec_voltage"
          "\<not> rule3_holds ex_mech_coupled ex_hyd_cavitation ex_elec_voltage"
    by (simp_all add: example_defs)
  have b: "base_confidence [ex_mech_coupled, ex_hyd_cavitation, ex_elec_voltage] = 75"
    by (simp add: base_confidence_def)
  show ?thesis
    using correlation_rules_independent[of ex_mech_coupled ex_hyd_cavitation
            ex_elec_voltage "[]" None] r b
    by (simp add: temp_data_truthy_def py_int_def)
qed

text \<open>
  Claim C2, as amended. The integrated confidence is the clamp at 95 of the truncation
  toward zero (Python's \<open>int\<close>, not a rounding to the nearest integer) of the mean of the
  domain confidences above 0 plus the total bonus. It lies in [-10, 95], and in [0, 95]
  whenever that sum is not negative.
\<close>

theorem integrated_confidence_truncated:
  "system_confidence (aggregate_cross_domain_diagnosis m h e ctx td) =
       min 95 (py_int (base_confidence [m, h, e] + real_of_int (total_bonus m h e td)))
   \<and> - 10 \<le> system_confidence (aggregate_cross_domain_diagnosis m h e ctx td)
   \<and> system_confidence (aggregate_cross_domain_diagnosis m h e ctx td) \<le> 95
   \<and> (0 \<le> base_confidence [m, h, e] + real_of_int (total_bonus m h e td)
        \<longrightarrow> 0 \<le> system_confidence (aggregate_cross_domain_diagnosis m h e ctx td))"
proof -
  let ?x = "base_confidence [m, h, e] + real_of_int (total_bonus m h e td)"
  have "real_of_int (- 10) \<le> ?x"
    using base_confidence_nonneg[of "[m, h, e]"] total_bonus_lower[of m h e td] by simp
  then have low: "- 10 \<le> py_int ?x"
    by (rule py_int_lower) simp
  have nn: "0 \<le> ?x \<longrightarrow> 0 \<le> py_int ?x"
    using py_int_nonneg by blast
  show ?thesis
    unfolding aggregate_confidence using low nn by simp
qed

theorem integrated_confidence_truncated_witness:
  "0 \<le> base_confidence [ex_mech_undiagnosed, ex_hyd_normal, ex_elec_normal]
          + real_of_int (total_bonus ex_mech_undiagnosed ex_hyd_normal ex_elec_normal None)
   \<and> system_confidence (aggregate_cross_domain_diagnosis ex_mech_undiagnosed ex_hyd_normal
         ex_elec_normal [] None) = 76
   \<and> 0 \<le> system_confidence (aggregate_cross_domain_diagnosis ex_mech_undiagnosed
         ex_hyd_normal ex_elec_normal [] None)"
proof -
  have b: "base_confidence [ex_mech_undiagnosed, ex_hyd_normal, ex_elec_normal] = 230 / 3"
    by (simp add: base_confidence_def)
  have t: "total_bonus ex_mech_undiagnosed ex_hyd_normal ex_elec_normal None = 0"
    by (simp add: total_bonus_def correlation_rules_eq example_defs)
  show ?thesis
    using integrated_confidence_truncated[of ex_mech_undiagnosed ex_hyd_normal
            ex_elec_normal "[]" None]
    unfolding b t by (simp add: py_int_def)
qed

text \<open>Against C2 as stated: confidences 40, 95 and 95 with no bonus have the mean
  76.67, which the code truncates to 76 and the specification rounds to 77; and a single
  positive confidence of 5 with a critical and a warning temperature on a normal
  mechanical result (adjustment -10) gives the confidence -5, below 0.\<close>

theorem integrated_confidence_counterexample:
  "system_confidence (aggregate_cross_domain_diagnosis ex_mech_undiagnosed ex_hyd_normal
       ex_elec_normal [] None) = 76
   \<and> spec_integrated_confidence [ex_mech_undiagnosed, ex_hyd_normal, ex_elec_normal]
       (total_bonus ex_mech_undiagnosed ex_hyd_normal ex_elec_normal None) = 77
   \<and> system_confidence (aggregate_cross_domain_diagnosis (ex_low_confidence 5)
       (ex_low_confidence 0) (ex_low_confidence 0) [] (Some (ex_temps 95 85))) = - 5"
proof -
  have b: "base_confidence [ex_mech_undiagnosed, ex_hyd_normal, ex_elec_normal] = 230 / 3"
    by (simp add: base_confidence_def)
  have t: "total_bonus ex_mech_undiagnosed ex_hyd_normal ex_elec_normal None = 0"
    by (simp add: total_bonus_def correlation_rules_eq example_defs)
  have b2: "base_confidence [ex_low_confidence 5, ex_low_confidence 0, ex_low_confidence 0] = 5"
    by (simp add: base_confidence_def)
  have t2: "total_bonus (ex_low_confidence 5) (ex_low_confidence 0) (ex_low_confidence 0)
              (Some (ex_temps 95 85)) = - 10"
    by (simp add: total_bonus_def correlation_rules_eq example_defs Let_def)
  show ?thesis
    unfolding aggregate_confidence spec_integrated_confidence_def b t b2 t2
    by (simp add: py_int_def round_def)
qed

text \<open>
  Claim C1, at the input on which the code departs from it: all three domain severities
  are Low and the pump drive-end bearing is at exactly 90 degrees, which the temperature
  classifier calls Critical; the aggregator compares with \<open>temp > critical_min\<close> and leaves the
  integrated severity at Low.
\<close>

theorem severity_override_misses_90:
  "system_severity (aggregate_cross_domain_diagnosis ex_mech_normal ex_hyd_normal
       ex_elec_normal [] (Some (ex_temps 90 63))) = Low
   \<and> fst (get_temperature_status (Some 90)) = ''Critical''"
  by (simp add: aggregate_severity temp_data_truthy_def critical_min_def
        get_temperature_status_def normal_max_def elevated_max_def warning_max_def)

subsection \<open>Hydraulic diagnoser\<close>





subsection \<open>Mechanical diagnoser\<close>

lemma foldl_first_max:
  fixes x :: "'k \<times> real"
  shows "\<exists>i < length (x # xs).
           foldl (\<lambda>best it. if snd it > snd best then it else best) x xs = (x # xs) ! i
         \<and> (\<forall>j < length (x # xs). snd ((x # xs) ! j) \<le> snd ((x # xs) ! i))
         \<and> (\<forall>j < i. snd ((x # xs) ! j) < snd ((x # xs) ! i))"
proof (induction xs rule: rev_induct)
  case Nil
  then show ?case by simp
next
  case (snoc y ys)
  let ?f = "\<lambda>best it. if snd it > snd best then it else (best :: 'k \<times> real)"
  define l where "l = x # ys"
  from snoc obtain i where i: "i < length l" "foldl ?f x ys = l ! i"
    "\<forall>j < length l. snd (l ! j) \<le> snd (l ! i)" "\<forall>j < i. snd (l ! j) < snd (l ! i)"
    unfolding l_def by blast
  have app: "x # ys @ [y] = l @ [y]" by (simp add: l_def)
  have step: "foldl ?f x (ys @ [y]) = (if snd y > snd (l ! i) then y else l ! i)"
    using i(2) by simp
  show ?case
  proof (cases "snd y > snd (l ! i)")
    case True
    have a: "foldl ?f x (ys @ [y]) = (l @ [y]) ! length l"
      using True step by simp
    have b: "\<forall>j < length (l @ [y]). snd ((l @ [y]) ! j) \<le> snd ((l @ [y]) ! length l)"
      using True i(3) by (auto simp: nth_append less_Suc_eq) 
    have c: "\<forall>j < length l. snd ((l @ [y]) ! j) < snd ((l @ [y]) ! length l)"
      using True i(3) by (auto simp: nth_append)
    show ?thesis unfolding app
      using a b c by (intro exI[of _ "length l"]) simp
  next
    case False
    have a: "foldl ?f x (ys @ [y]) = (l @ [y]) ! i"
      using False i(1) step by (simp add: nth_append) 
    have b: "\<forall>j < length (l @ [y]). snd ((l @ [y]) ! j) \<le> snd ((l @ [y]) ! i)"
      using False i(1,3) by (auto simp: nth_append less_Suc_eq) 
    have c: "\<forall>j < i. snd ((l @ [y]) ! j) < snd ((l @ [y]) ! i)"
      using i(1,4) by (auto simp: nth_append) 
    show ?thesis unfolding app
      using a b c i(1) by (intro exI[of _ i]) simp
  qed
qed

lemma py_max_key_spec:
  assumes "vd \<noteq> []"
  shows "\<exists>i < length vd. py_max_key vd = Inr (vd ! i)
         \<and> (\<forall>j < length vd. snd (vd ! j) \<le> snd (vd ! i))
         \<and> (\<forall>j < i. snd (vd ! j) < snd (vd ! i))"
proof -
  from assms obtain x xs where vd: "vd = x # xs" by (cases vd) auto
  show ?thesis unfolding vd py_max_key_def list.case
    using foldl_first_max[of x xs] by blast
qed

lemma diagnose_mechanical_champion:
  assumes "py_max_key vd = Inr (cp, mv)"
  shows "\<exists>r. diagnose_mechanical_system vd bd fft rpm td = Inr r
     \<and> champion_point r = Some (if severity r = Low then ''Tidak Ada (Normal)'' else cp)"
  using assms
  by (simp add: diagnose_mechanical_system_def Let_def split_def)

lemma diagnose_mechanical_error:
  "(diagnose_mechanical_system vd bd fft rpm td = Inl e) = (vd = [] \<and> e = ValueError)"
  by (cases vd) (auto simp: diagnose_mechanical_system_def py_max_key_def Let_def split_def)

lemma length_points: "length points = 12"
  by (simp add: points_def)

lemma py_next_none:
  "\<forall>p \<in> set xs. \<not> P p \<Longrightarrow> py_next [f p. p \<leftarrow> xs, P p] d = d"
  by (induction xs) auto

lemma py_next_first:
  "i < length xs \<Longrightarrow> P (xs ! i) \<Longrightarrow> \<forall>j<i. \<not> P (xs ! j)
     \<Longrightarrow> py_next [f p. p \<leftarrow> xs, P p] d = f (xs ! i)"
proof (induction xs arbitrary: i)
  case Nil
  then show ?case by simp
next
  case (Cons x xs)
  show ?case
  proof (cases i)
    case 0
    with Cons.prems show ?thesis by simp
  next
    case (Suc k)
    with Cons.prems have "\<not> P x" by auto
    moreover have "py_next [f p. p \<leftarrow> xs, P p] d = f (xs ! k)"
      using Cons.prems Suc by (intro Cons.IH) auto
    ultimately show ?thesis using Suc by simp
  qed
qed

lemma map_of_insert_fresh:
  assumes "map_of t1 k = None" and "map_of t2 k = None"
  shows "map_of (t1 @ (k, v) # t2) k' = (if k' = k then Some v else map_of (t1 @ t2) k')"
  using assms by (auto simp: map_add_def split: option.splits)

lemma temp_truthy_insert:
  assumes "map_of t1 k = None" and "map_of t2 k = None" and "v = None \<or> v = Some 0"
  shows "temp_truthy (t1 @ (k, v) # t2) k' = temp_truthy (t1 @ t2) k'"
proof (cases "k' = k")
  case True
  have a: "map_of (t1 @ t2) k = None"
    using assms(1,2) by (simp add: map_add_def)
  have b: "map_of (t1 @ (k, v) # t2) k = Some v"
    using map_of_insert_fresh[OF assms(1,2), of v k] by simp
  show ?thesis
    unfolding temp_truthy_def True a b using assms(3) by auto
next
  case False
  then show ?thesis
    unfolding temp_truthy_def map_of_insert_fresh[OF assms(1,2)] by simp
qed

lemma temp_at_insert:
  assumes "map_of t1 k = None" and "map_of t2 k = None" and "v = None \<or> v = Some 0"
  shows "temp_at (t1 @ (k, v) # t2) k' = temp_at (t1 @ t2) k'"
proof (cases "k' = k")
  case True
  have a: "map_of (t1 @ t2) k = None"
    using assms(1,2) by (simp add: map_add_def)
  have b: "map_of (t1 @ (k, v) # t2) k = Some v"
    using map_of_insert_fresh[OF assms(1,2), of v k] by simp
  show ?thesis
    unfolding temp_at_def True a b using assms(3) by auto
next
  case False
  then show ?thesis
    unfolding temp_at_def map_of_insert_fresh[OF assms(1,2)] by simp
qed

lemma temp_step_skip:
  assumes "v = None \<or> v = Some 0"
  shows "temp_step c acc (k, v) = acc"
  using assms by (auto simp: temp_step_def split: prod.splits)

lemma temp_fold_insert:
  assumes "v = None \<or> v = Some 0"
  shows "foldl (temp_step c) a (t1 @ (k, v) # t2) = foldl (temp_step c) a (t1 @ t2)"
  by (simp add: temp_step_skip[OF assms])

lemma temperature_missing_key_as_zero:
  assumes "k \<notin> fst ` set (t1 @ t2)" and "v = None \<or> v = Some 0"
  shows "calculate_temperature_confidence_adjustment (t1 @ (k, v) # t2) c
       = calculate_temperature_confidence_adjustment (t1 @ t2) c"
proof -
  have n: "map_of t1 k = None" "map_of t2 k = None"
    using assms(1) by (auto simp: map_of_eq_None_iff)
  show ?thesis
    unfolding calculate_temperature_confidence_adjustment_def
      temp_fold_insert[OF assms(2)] temp_truthy_insert[OF n assms(2)]
      temp_at_insert[OF n assms(2)]
    by (rule refl)
qed

text \<open>
  Claim C9. For a velocity map over the twelve points in canonical order, the champion
  selected by the mechanical diagnoser is a point of maximal overall velocity, and every
  point before it in canonical order has a strictly smaller velocity: among tied maxima
  the first one is selected. The diagnoser returns, and the champion point of its result
  is that point unless the final decision is Normal (severity Low), where it is the
  sentinel.
\<close>

theorem champion_is_first_maximum:
  assumes "map fst vel_data = points"
  shows "\<exists>i<12. py_max_key vel_data = Inr (points ! i, snd (vel_data ! i))
     \<and> (\<forall>j<12. snd (vel_data ! j) \<le> snd (vel_data ! i))
     \<and> (\<forall>j<i. snd (vel_data ! j) < snd (vel_data ! i))
     \<and> (\<exists>r. diagnose_mechanical_system vel_data bands_data fft rpm_hz temp_data = Inr r
            \<and> champion_point r =
                Some (if severity r = Low then ''Tidak Ada (Normal)'' else points ! i))"
proof -
  have len: "length vel_data = 12"
    using assms length_points by (metis length_map)
  then have ne: "vel_data \<noteq> []" by auto
  from py_max_key_spec[OF ne] obtain i where i: "i < length vel_data"
    "py_max_key vel_data = Inr (vel_data ! i)"
    "\<forall>j < length vel_data. snd (vel_data ! j) \<le> snd (vel_data ! i)"
    "\<forall>j < i. snd (vel_data ! j) < snd (vel_data ! i)"
    by blast
  have "fst (vel_data ! i) = points ! i"
    using assms i(1) by (metis nth_map)
  then have key: "py_max_key vel_data = Inr (points ! i, snd (vel_data ! i))"
    using i(2) by (metis prod.collapse)
  from diagnose_mechanical_champion[OF key]
  have "\<exists>r. diagnose_mechanical_system vel_data bands_data fft rpm_hz temp_data = Inr r
            \<and> champion_point r =
                Some (if severity r = Low then ''Tidak Ada (Normal)'' else points ! i)" .
  with key i(1,3,4) show ?thesis unfolding len by blast
qed

text \<open>Pump DE Axial and Pump NDE Axial tie at 5 mm/s: the champion is Pump DE Axial.\<close>

theorem champion_is_first_maximum_witness:
  "map fst ex_vel_tie = points
   \<and> py_max_key ex_vel_tie = Inr (points ! 2, snd (ex_vel_tie ! 2))
   \<and> snd (ex_vel_tie ! 5) = snd (ex_vel_tie ! 2)
   \<and> points ! 2 = ''Pump DE Axial''
   \<and> map_sum id champion_point
        (diagnose_mechanical_system ex_vel_tie ex_bands_normal [(50, 1), (100, 3)] 50 [])
       = Inr (Some ''Pump DE Axial'')"
proof -
  have h: "map fst ex_vel_tie = points"
    by (simp add: points_def)
  from champion_is_first_maximum[OF h, of ex_bands_normal "[(50, 1), (100, 3)]" 50 "[]"]
  obtain i where i: "i < 12" "py_max_key ex_vel_tie = Inr (points ! i, snd (ex_vel_tie ! i))"
    by blast
  have k: "py_max_key ex_vel_tie = Inr (''Pump DE Axial'', 5)"
    by (simp add: points_def py_max_key_def)
  have p: "points ! 2 = ''Pump DE Axial''" "snd (ex_vel_tie ! 2) = 5" "snd (ex_vel_tie ! 5) = 5"
    by (simp_all add: points_def)
  have d: "map_sum id champion_point
        (diagnose_mechanical_system ex_vel_tie ex_bands_normal [(50, 1), (100, 3)] 50 [])
       = Inr (Some ''Pump DE Axial'')"
    by code_simp
  show ?thesis
    using i h k p d by simp
qed

text \<open>
  Claim C5, as amended. The 1x and 2x amplitudes are those of the first supplied peak,
  in list order, whose frequency is strictly within 0.05 * rpm_hz of the target (the
  same absolute tolerance for the target rpm_hz and for the target 2 * rpm_hz, which is
  2.5 percent of the latter), and 0 when no supplied peak is; the distance of a peak to
  the target plays no part in the selection.
\<close>

theorem fft_peak_first_in_band:
  "((\<forall>p \<in> set fft. \<not> \<bar>fst p - rpm_hz\<bar> < 0.05 * rpm_hz) \<longrightarrow> amp_1x fft rpm_hz = 0)
   \<and> (\<forall>i < length fft.
         \<bar>fst (fft ! i) - rpm_hz\<bar> < 0.05 * rpm_hz
         \<and> (\<forall>j<i. \<not> \<bar>fst (fft ! j) - rpm_hz\<bar> < 0.05 * rpm_hz)
         \<longrightarrow> amp_1x fft rpm_hz = snd (fft ! i))
   \<and> ((\<forall>p \<in> set fft. \<not> \<bar>fst p - 2 * rpm_hz\<bar> < 0.05 * rpm_hz) \<longrightarrow> amp_2x fft rpm_hz = 0)
   \<and> (\<forall>i < length fft.
         \<bar>fst (fft ! i) - 2 * rpm_hz\<bar> < 0.05 * rpm_hz
         \<and> (\<forall>j<i. \<not> \<bar>fst (fft ! j) - 2 * rpm_hz\<bar> < 0.05 * rpm_hz)
         \<longrightarrow> amp_2x fft rpm_hz = snd (fft ! i))"
  unfolding amp_1x_def amp_2x_def
  using py_next_none[of fft "\<lambda>p. \<bar>fst p - rpm_hz\<bar> < 0.05 * rpm_hz" snd 0]
        py_next_none[of fft "\<lambda>p. \<bar>fst p - 2 * rpm_hz\<bar> < 0.05 * rpm_hz" snd 0]
        py_next_first[of _ fft "\<lambda>p. \<bar>fst p - rpm_hz\<bar> < 0.05 * rpm_hz" snd 0]
        py_next_first[of _ fft "\<lambda>p. \<bar>fst p - 2 * rpm_hz\<bar> < 0.05 * rpm_hz" snd 0]
  by blast

theorem fft_peak_first_in_band_witness:
  "\<bar>fst ([(52, 1), (50, 3), (104, 2)] ! 0) - 50\<bar> < 0.05 * (50 :: real)
   \<and> amp_1x [(52, 1), (50, 3), (104, 2)] 50 = 1
   \<and> \<not> \<bar>52 - 2 * 50\<bar> < 0.05 * (50 :: real)
   \<and> \<not> \<bar>50 - 2 * 50\<bar> < 0.05 * (50 :: real)
   \<and> \<not> \<bar>104 - 2 * 50\<bar> < 0.05 * (50 :: real)
   \<and> amp_2x [(52, 1), (50, 3), (104, 2)] 50 = 0"
proof -
  let ?L = "[(52, 1), (50, 3), (104, 2 :: real)]"
  note t = fft_peak_first_in_band[of ?L 50]
  have a1: "amp_1x ?L 50 = 1"
    using t[THEN conjunct2, THEN conjunct1, rule_format, of 0] by simp
  have a2: "amp_2x ?L 50 = 0"
    using t[THEN conjunct2, THEN conjunct2, THEN conjunct1] by simp
  show ?thesis using a1 a2 by simp
qed

text \<open>Against C5 as stated: of the peaks at 52 Hz and 50 Hz, both within 5 percent of
  the target 50 Hz, the code takes the first (amplitude 1), not the nearer (amplitude
  3), and the horizontal champion is then left undiagnosed instead of UNBALANCE; a peak
  at 104 Hz is within 5 percent of the target 100 Hz and is not taken for 2x.\<close>

theorem fft_peak_nearest_counterexample:
  "amp_1x [(52, 1), (50, 3)] 50 = 1
   \<and> spec_nearest_peak_amp [(52, 1), (50, 3)] 50 = 3
   \<and> amp_2x [(104, 2)] 50 = 0
   \<and> spec_nearest_peak_amp [(104, 2)] (2 * 50) = 2
   \<and> map_sum id diagnosis
        (diagnose_mechanical_system ex_vel_unbalance ex_bands_normal [(52, 1), (50, 3)] 50 [])
       = Inr ''Tidak Terdiagnosa''"
proof -
  have "map_sum id diagnosis
        (diagnose_mechanical_system ex_vel_unbalance ex_bands_normal [(52, 1), (50, 3)] 50 [])
       = Inr ''Tidak Terdiagnosa''"
    by code_simp
  then show ?thesis
    by (simp add: amp_1x_def amp_2x_def spec_nearest_peak_amp_def)
qed

lemma dict_get_insert_zero:
  assumes "map_of b1 k = None" and "map_of b2 k = None"
  shows "dict_get (b1 @ (k, 0) # b2) k' (0::real) = dict_get (b1 @ b2) k' 0"
proof (cases "k' = k")
  case True
  have a: "map_of (b1 @ b2) k = None"
    using assms by (simp add: map_add_def)
  have b: "map_of (b1 @ (k, 0) # b2) k = Some 0"
    using map_of_insert_fresh[OF assms, of 0 k] by simp
  show ?thesis unfolding dict_get_def True a b by simp
next
  case False
  then show ?thesis
    unfolding dict_get_def map_of_insert_fresh[OF assms] by simp
qed

lemma bearing_step_missing_band:
  assumes "band \<notin> fst ` set (b1 @ b2)"
  shows "bearing_step acc (point, b1 @ (band, 0) # b2) = bearing_step acc (point, b1 @ b2)"
proof -
  have n: "map_of b1 band = None" "map_of b2 band = None"
    using assms by (auto simp: map_of_eq_None_iff)
  show ?thesis
    unfolding bearing_step_def prod.case dict_get_insert_zero[OF n] by (rule refl)
qed

lemma bearing_step_no_bands: "bearing_step acc (point, []) = acc"
  by (simp add: bearing_step_def dict_get_def base1_def base2_def base3_def split: prod.splits)

lemma evaluate_bearing_missing_band:
  assumes "band \<notin> fst ` set (b1 @ b2)"
  shows "evaluate_bearing (bd1 @ (point, b1 @ (band, 0) # b2) # bd2)
       = evaluate_bearing (bd1 @ (point, b1 @ b2) # bd2)"
  unfolding evaluate_bearing_def foldl_append foldl_Cons bearing_step_missing_band[OF assms]
  by (rule refl)

lemma evaluate_bearing_missing_point:
  "evaluate_bearing (bd1 @ (point, []) # bd2) = evaluate_bearing (bd1 @ bd2)"
  unfolding evaluate_bearing_def foldl_append foldl_Cons bearing_step_no_bands
  by (rule refl)

lemma diagnose_mechanical_missing_band:
  assumes "band \<notin> fst ` set (b1 @ b2)"
  shows "diagnose_mechanical_system vd (bd1 @ (point, b1 @ (band, 0) # b2) # bd2) fft rpm td
       = diagnose_mechanical_system vd (bd1 @ (point, b1 @ b2) # bd2) fft rpm td"
  unfolding diagnose_mechanical_system_def evaluate_bearing_missing_band[OF assms]
  by (rule refl)

lemma diagnose_mechanical_missing_point:
  "diagnose_mechanical_system vd (bd1 @ (point, []) # bd2) fft rpm td
       = diagnose_mechanical_system vd (bd1 @ bd2) fft rpm td"
  unfolding diagnose_mechanical_system_def evaluate_bearing_missing_point
  by (rule refl)

text \<open>
  Claim C4, as amended. No input makes the computation fail with an InvalidInputError:
  the code has no such error. For velocities and FFT amplitudes of a magnitude of at
  most 10 to the power 300, the mechanical diagnoser fails only on an empty velocity
  map, with Python's ValueError, and returns a result for every other velocity map,
  complete or not. In its band map a missing band key gives the same result as that
  key with the reading 0, and a point that is absent gives the same result as the point
  with no band readings. The temperature adjuster returns a result for every
  temperature map, and a missing key gives the same result as that key with the value 0
  or \<open>None\<close> (not measured).
\<close>

theorem missing_keys_do_not_fail:
  "(finite_magnitudes vel_data fft \<longrightarrow>
      (diagnose_mechanical_system vel_data bands_data fft rpm_hz temp_data = Inl e)
        = (vel_data = [] \<and> e = ValueError))
   \<and> (band \<notin> fst ` set (b1 @ b2) \<longrightarrow>
        diagnose_mechanical_system vel_data (bd1 @ (point, b1 @ (band, 0) # b2) # bd2)
            fft rpm_hz temp_data
          = diagnose_mechanical_system vel_data (bd1 @ (point, b1 @ b2) # bd2)
              fft rpm_hz temp_data)
   \<and> diagnose_mechanical_system vel_data (bd1 @ (point, []) # bd2) fft rpm_hz temp_data
          = diagnose_mechanical_system vel_data (bd1 @ bd2) fft rpm_hz temp_data
   \<and> (k \<notin> fst ` set (t1 @ t2) \<longrightarrow>
        calculate_temperature_confidence_adjustment (t1 @ (k, Some 0) # t2) c
          = calculate_temperature_confidence_adjustment (t1 @ t2) c
        \<and> calculate_temperature_confidence_adjustment (t1 @ (k, None) # t2) c
          = calculate_temperature_confidence_adjustment (t1 @ t2) c)"
  using diagnose_mechanical_error[of vel_data bands_data fft rpm_hz temp_data e]
        diagnose_mechanical_missing_band[of band b1 b2 vel_data bd1 point bd2 fft rpm_hz temp_data]
        diagnose_mechanical_missing_point[of vel_data bd1 point bd2 fft rpm_hz temp_data]
        temperature_missing_key_as_zero[of k t1 t2 "Some 0" c]
        temperature_missing_key_as_zero[of k t1 t2 None c]
  by simp

theorem missing_keys_do_not_fail_witness:
  "finite_magnitudes ex_vel_missing []
   \<and> ex_vel_missing \<noteq> []
   \<and> diagnose_mechanical_system ex_vel_missing ex_bands_missing [] 50 [] \<noteq> Inl ValueError
   \<and> ''Band3'' \<notin> fst ` set ([(''Band1'', 0.2), (''Band2'', 0.15 :: real)] @ [])
   \<and> diagnose_mechanical_system ex_vel_missing
        ([] @ (''Pump DE Horizontal'', [(''Band1'', 0.2), (''Band2'', 0.15)] @ (''Band3'', 0) # [])
            # tl ex_bands_missing) [] 50 []
       = diagnose_mechanical_system ex_vel_missing
        ([] @ (''Pump DE Horizontal'', [(''Band1'', 0.2), (''Band2'', 0.15)] @ [])
            # tl ex_bands_missing) [] 50 []
   \<and> diagnose_mechanical_system ex_vel_missing
        ([] @ (''Pump DE Horizontal'', []) # tl ex_bands_missing) [] 50 []
       = diagnose_mechanical_system ex_vel_missing ([] @ tl ex_bands_missing) [] 50 []
   \<and> ''Pump_NDE'' \<notin> fst ` set ex_temps_missing
   \<and> calculate_temperature_confidence_adjustment
        ([(''Pump_DE'', Some 85)] @ (''Pump_NDE'', Some 0)
            # [(''Motor_DE'', Some 68), (''Motor_NDE'', Some 66)]) True
        = calculate_temperature_confidence_adjustment ex_temps_missing True"
proof -
  have ne: "ex_vel_missing \<noteq> []"
    by (simp add: points_def)
  have fb: "''Band3'' \<notin> fst ` set ([(''Band1'', 0.2), (''Band2'', 0.15 :: real)] @ [])"
    by simp
  have fresh: "''Pump_NDE'' \<notin> fst ` set ex_temps_missing"
    by simp
  note t = missing_keys_do_not_fail[where vel_data = ex_vel_missing
             and bands_data = ex_bands_missing and fft = "[]" and rpm_hz = 50
             and temp_data = "[]" and e = ValueError and band = "''Band3''"
             and ?b1.0 = "[(''Band1'', 0.2), (''Band2'', 0.15)]" and ?b2.0 = "[]"
             and ?bd1.0 = "[]" and point = "''Pump DE Horizontal''"
             and ?bd2.0 = "tl ex_bands_missing" and k = "''Pump_NDE''"
             and ?t1.0 = "[(''Pump_DE'', Some 85)]"
             and ?t2.0 = "[(''Motor_DE'', Some 68), (''Motor_NDE'', Some 66)]" and c = True]
  have r: "replicate 11 (1::real) = [1, 1, 1, 1, 1, 1, 1, 1, 1, 1, 1]"
    by code_simp
  have fm: "finite_magnitudes ex_vel_missing []"
    by (simp add: finite_magnitudes_def points_def r)
  have a: "diagnose_mechanical_system ex_vel_missing ex_bands_missing [] 50 [] \<noteq> Inl ValueError"
    using t[THEN conjunct1, rule_format, OF fm] ne by simp
  note b = t[THEN conjunct2, THEN conjunct1, rule_format, OF fb]
  note c = t[THEN conjunct2, THEN conjunct2, THEN conjunct1]
  note d = t[THEN conjunct2, THEN conjunct2, THEN conjunct2, rule_format, OF fresh,
             THEN conjunct1]
  show ?thesis using fm ne a fb b c fresh d by (intro conjI)
qed

text \<open>Against C4 as stated: a velocity map and a band map without Motor NDE Axial are
  diagnosed as Normal, and a temperature map without Pump_NDE gets its adjustment.\<close>

theorem missing_key_counterexample:
  "map_sum id diagnosis (diagnose_mechanical_system ex_vel_missing ex_bands_missing [] 50 [])
     = Inr ''Normal''
   \<and> calculate_temperature_confidence_adjustment ex_temps_missing True
     = (15, [WarningConfirmation ''Pump_DE'' 85])"
proof -
  have "map_sum id diagnosis (diagnose_mechanical_system ex_vel_missing ex_bands_missing [] 50 [])
     = Inr ''Normal''"
    by code_simp
  moreover have "calculate_temperature_confidence_adjustment ex_temps_missing True
     = (15, [WarningConfirmation ''Pump_DE'' 85])"
    by (simp add: example_defs Let_def)
  ultimately show ?thesis by (intro conjI)
qed

text \<open>
  Claim C3, at an input on which the code departs from it: Pump DE Horizontal matches
  the severe rule (High, BEARING_SEVERE), and Pump DE Vertical, processed next, matches
  the developed rule with Band2 not above three times its baseline; that branch assigns
  the severity without looking at the accumulated one, and the fold ends with
  (Medium, BEARING_DEVELOPED).
\<close>

theorem bearing_severity_downgraded:
  "evaluate_bearing (take 1 ex_bands_downgrade) = (High, ''BEARING_SEVERE'')
   \<and> evaluate_bearing ex_bands_downgrade = (Medium, ''BEARING_DEVELOPED'')
   \<and> diagnose_mechanical_system ex_vel_normal ex_bands_downgrade [] 50 [] =
       Inr \<lparr>diagnosis = ''BEARING_DEVELOPED'', confidence = 75, severity = Medium,
            fault_type = ''high_freq'', domain = ''mechanical'', details = NoDetails,
            champion_point = Some ''Pump DE Horizontal'', temperature_notes = []\<rparr>"
  by code_simp

end
